theory Spec2Isabelle
  imports Main "HOL-Library.Word"
begin

section \<open>Console font access through three generations of ioctl (libkfont/kdfontop.c)\<close>

text \<open>
  The C file reads and writes the bitmap font of a Linux text console. It tries the
  newest ioctl (\<open>KDFONTOP\<close>) first and falls back to \<open>GIO_FONTX\<close>/\<open>PIO_FONTX\<close> and then
  to \<open>GIO_FONT\<close>/\<open>PIO_FONT\<close>. The embedding below keeps the C names. What C does through
  pointers, \<open>errno\<close> and system calls is made explicit:
  \<^item> \<open>unsigned char\<close>, \<open>unsigned short\<close> and \<open>unsigned int\<close> are 8, 16 and 32 bit words,
    so every addition and multiplication wraps as it does in C;
  \<^item> a pointer to glyph data is the byte list behind it, \<open>None\<close> for a null pointer;
    reading past the end of a buffer is undefined in C and is the value \<open>None\<close> of the
    function that reads;
  \<^item> the kernel and the allocator are parameters (a \<open>platform\<close>); the state \<open>sys\<close>
    carries the kernel's state, \<open>errno\<close> and the list of requests made so far, in order;
  \<^item> the \<open>kfont_context\<close> argument only receives error messages (\<open>KFONT_ERR\<close>) and is
    left out.
\<close>

subsection \<open>Machine types and platform constants\<close>

type_synonym u8 = "8 word"
type_synonym u16 = "16 word"
type_synonym u32 = "32 word"

text \<open>The two failure codes the code tests for, with their Linux values, and the
  largest \<open>unsigned short\<close>.\<close>

definition ENOSYS :: int where
  "ENOSYS = 38"

definition EINVAL :: int where
  "EINVAL = 22"

definition USHRT_MAX :: u32 where
  "USHRT_MAX = 65535"

text \<open>The two argument structures of \<open>linux/kd.h\<close>. The count and the height of
  \<open>consolefontdesc\<close> are \<open>unsigned short\<close>; all numbers of \<open>console_font_op\<close> are
  \<open>unsigned int\<close>.\<close>

datatype kd_font_op = KD_FONT_OP_SET | KD_FONT_OP_GET

record console_font_op =
  cfo_op :: kd_font_op
  cfo_flags :: u32
  cfo_width :: u32
  cfo_height :: u32
  cfo_charcount :: u32
  cfo_data :: "u8 list option"

record consolefontdesc =
  cfd_charcount :: u16
  cfd_charheight :: u16
  cfd_chardata :: "u8 list option"

subsection \<open>The kernel, the allocator and the calls made\<close>

text \<open>Everything the code asks of its environment is logged: each ioctl with the
  argument it was given, each \<open>malloc\<close> with its size and whether it succeeded, and each
  \<open>free\<close>.\<close>

datatype event =
    is_KDFONTOP: KDFONTOP console_font_op
  | is_GIO_FONTX: GIO_FONTX consolefontdesc
  | is_PIO_FONTX: PIO_FONTX consolefontdesc
  | is_GIO_FONT: GIO_FONT "u8 list option"
  | is_PIO_FONT: PIO_FONT "u8 list option"
  | is_PIO_FONTRESET: PIO_FONTRESET int
  | is_Malloc: Malloc nat bool
  | is_Free: Free

text \<open>A kernel entry point takes the kernel's state and the argument and answers
  \<open>Inl e\<close> (the call failed with failure code \<open>e\<close>) or \<open>Inr a\<close> (the call succeeded and
  left \<open>a\<close> in the caller's argument).\<close>

record 'd platform =
  k_kdfontop :: "'d \<Rightarrow> console_font_op \<Rightarrow> (int + console_font_op) \<times> 'd"
  k_gio_fontx :: "'d \<Rightarrow> consolefontdesc \<Rightarrow> (int + consolefontdesc) \<times> 'd"
  k_pio_fontx :: "'d \<Rightarrow> consolefontdesc \<Rightarrow> (int + consolefontdesc) \<times> 'd"
  k_gio_font :: "'d \<Rightarrow> u8 list option \<Rightarrow> (int + u8 list option) \<times> 'd"
  k_pio_font :: "'d \<Rightarrow> u8 list option \<Rightarrow> (int + u8 list option) \<times> 'd"
  k_pio_fontreset :: "'d \<Rightarrow> int \<Rightarrow> (int + int) \<times> 'd"
  malloc_ok :: "'d \<Rightarrow> nat \<Rightarrow> bool"

record 'd sys =
  env :: 'd
  errno :: int
  calls :: "event list"

text \<open>\<open>ioctl(fd, request, arg)\<close>: returns 0 and the argument as the kernel left it, or
  -1 with \<open>errno\<close> set and the argument as it was.\<close>

definition ioctl ::
  "('d \<Rightarrow> 'a \<Rightarrow> (int + 'a) \<times> 'd) \<Rightarrow> ('a \<Rightarrow> event) \<Rightarrow> 'd sys \<Rightarrow> 'a \<Rightarrow> int \<times> 'a \<times> 'd sys" where
  "ioctl entry request s arg =
     (case entry (env s) arg of
        (Inr arg', d) \<Rightarrow> (0, arg', s\<lparr>env := d, calls := calls s @ [request arg]\<rparr>)
      | (Inl e, d) \<Rightarrow> (- 1, arg, s\<lparr>env := d, errno := e, calls := calls s @ [request arg]\<rparr>))"

definition log_event :: "event \<Rightarrow> 'd sys \<Rightarrow> 'd sys" where
  "log_event ev s = s\<lparr>calls := calls s @ [ev]\<rparr>"

subsection \<open>kfont_restore_font\<close>

definition kfont_restore_font :: "'d platform \<Rightarrow> 'd sys \<Rightarrow> int \<times> 'd sys" where
  "kfont_restore_font P s =
     (let (i, _, s1) = ioctl (k_pio_fontreset P) PIO_FONTRESET s 0
      in if i \<noteq> 0 then (- 1, s1) else (0, s1))"

subsection \<open>font_charheight\<close>

text \<open>\<open>buf[k]\<close> for an \<open>unsigned int\<close> index.\<close>

definition rd :: "u8 list \<Rightarrow> u32 \<Rightarrow> u8 option" where
  "rd buf k = (if unat k < length buf then Some (buf ! unat k) else None)"

text \<open>The three nested loops, innermost first. Each inner loop answers whether it took
  the \<open>goto nonzero\<close>.\<close>

function charheight_cols :: "u8 list \<Rightarrow> u32 \<Rightarrow> u32 \<Rightarrow> u32 \<Rightarrow> u32 \<Rightarrow> bool option" where
  "charheight_cols buf bytewidth h i x =
     (if x < bytewidth then
        (case rd buf ((32 * i + h - 1) * bytewidth + x) of
           None \<Rightarrow> None
         | Some b \<Rightarrow> if b \<noteq> 0 then Some True else charheight_cols buf bytewidth h i (x + 1))
      else Some False)"
  by pat_completeness auto
termination
  apply (relation "measure (\<lambda>(buf, bytewidth, h, i, x). unat bytewidth - unat x)")
   apply simp
  apply (simp add: word_less_nat_alt)
  apply unat_arith
  done

function charheight_glyphs :: "u8 list \<Rightarrow> u32 \<Rightarrow> u32 \<Rightarrow> u32 \<Rightarrow> u32 \<Rightarrow> bool option" where
  "charheight_glyphs buf count bytewidth h i =
     (if i < count then
        (case charheight_cols buf bytewidth h i 0 of
           None \<Rightarrow> None
         | Some True \<Rightarrow> Some True
         | Some False \<Rightarrow> charheight_glyphs buf count bytewidth h (i + 1))
      else Some False)"
  by pat_completeness auto
termination
  apply (relation "measure (\<lambda>(buf, count, bytewidth, h, i). unat count - unat i)")
   apply simp
  apply (simp add: word_less_nat_alt)
  apply unat_arith
  done

function charheight_rows :: "u8 list \<Rightarrow> u32 \<Rightarrow> u32 \<Rightarrow> u32 \<Rightarrow> u32 option" where
  "charheight_rows buf count bytewidth h =
     (if h > 0 then
        (case charheight_glyphs buf count bytewidth h 0 of
           None \<Rightarrow> None
         | Some True \<Rightarrow> Some h
         | Some False \<Rightarrow> charheight_rows buf count bytewidth (h - 1))
      else Some h)"
  by pat_completeness auto
termination
  apply (relation "measure (\<lambda>(buf, count, bytewidth, h). unat h)")
   apply simp
  apply (simp add: word_less_nat_alt)
  apply unat_arith
  done

declare charheight_cols.simps [simp del] charheight_glyphs.simps [simp del]
  charheight_rows.simps [simp del]

definition font_charheight :: "u8 list \<Rightarrow> u32 \<Rightarrow> u32 \<Rightarrow> u32 option" where
  "font_charheight buf count width = charheight_rows buf count ((width + 7) div 8) 32"

text \<open>What the specification says the scanner computes, on unbounded numbers: row \<open>h\<close>
  (counted from 1) is used when some glyph has a nonzero byte in it, and the effective
  height is the largest used row among 1..32, or 0 when there is none.\<close>

definition row_used :: "u8 list \<Rightarrow> nat \<Rightarrow> nat \<Rightarrow> nat \<Rightarrow> bool" where
  "row_used buf n bw h = (\<exists>i<n. \<exists>x<bw. buf ! ((32 * i + (h - 1)) * bw + x) \<noteq> 0)"

definition spec_effective_height :: "u8 list \<Rightarrow> nat \<Rightarrow> nat \<Rightarrow> nat" where
  "spec_effective_height buf n width =
     (let bw = (width + 7) div 8 in Max (insert 0 {h \<in> {1..32}. row_used buf n bw h}))"

subsection \<open>Reading: the three probes and kfont_get_font\<close>

text \<open>The caller's side of a read: the buffer (\<open>None\<close> when \<open>buf == NULL\<close>), the cell
  behind \<open>count\<close>, and the cells behind \<open>width\<close> and \<open>height\<close> (\<open>None\<close> when the pointer is
  null).\<close>

record font_ptrs =
  p_buf :: "u8 list option"
  p_count :: u32
  p_width :: "u32 option"
  p_height :: "u32 option"

text \<open>\<open>if (p) *p = v\<close>.\<close>

definition store :: "'a option \<Rightarrow> 'a \<Rightarrow> 'a option" where
  "store p v = (case p of None \<Rightarrow> None | Some _ \<Rightarrow> Some v)"

text \<open>The caller's buffer after a successful call that was handed the pointer: the
  kernel writes only through that pointer, so nothing lies behind a null pointer
  afterwards either.\<close>

definition written :: "u8 list option \<Rightarrow> u8 list option \<Rightarrow> u8 list option" where
  "written p d =
     (case p of None \<Rightarrow> None
      | Some old \<Rightarrow> (case d of None \<Rightarrow> Some old | Some new \<Rightarrow> Some new))"

definition kdfontop_get_request :: "font_ptrs \<Rightarrow> console_font_op" where
  "kdfontop_get_request m =
     \<lparr>cfo_op = KD_FONT_OP_GET, cfo_flags = 0, cfo_width = 32, cfo_height = 32,
      cfo_charcount = p_count m, cfo_data = p_buf m\<rparr>"

definition get_font_kdfontop ::
  "'d platform \<Rightarrow> 'd sys \<Rightarrow> font_ptrs \<Rightarrow> int \<times> 'd sys \<times> font_ptrs" where
  "get_font_kdfontop P s m =
     (let cfo = kdfontop_get_request m;
          (i, cfo', s') = ioctl (k_kdfontop P) KDFONTOP (s\<lparr>errno := 0\<rparr>) cfo
      in if i \<noteq> 0 then
           (if errno s' \<noteq> ENOSYS \<and> errno s' \<noteq> EINVAL then (- 1, s', m) else (1, s', m))
         else
           (0, s', m\<lparr>p_buf := written (p_buf m) (cfo_data cfo'),
                     p_count := cfo_charcount cfo',
                     p_height := store (p_height m) (cfo_height cfo'),
                     p_width := store (p_width m) (cfo_width cfo')\<rparr>))"

definition giofontx_request :: "font_ptrs \<Rightarrow> consolefontdesc" where
  "giofontx_request m =
     \<lparr>cfd_charcount = ucast (p_count m), cfd_charheight = 0, cfd_chardata = p_buf m\<rparr>"

definition get_font_giofontx ::
  "'d platform \<Rightarrow> 'd sys \<Rightarrow> font_ptrs \<Rightarrow> int \<times> 'd sys \<times> font_ptrs" where
  "get_font_giofontx P s m =
     (if p_count m > USHRT_MAX then (- 1, s, m)
      else
        let cfd = giofontx_request m;
            (i, cfd', s') = ioctl (k_gio_fontx P) GIO_FONTX (s\<lparr>errno := 0\<rparr>) cfd
        in if i \<noteq> 0 then
             (if errno s' \<noteq> ENOSYS \<and> errno s' \<noteq> EINVAL then (- 1, s', m) else (1, s', m))
           else
             (0, s', m\<lparr>p_buf := written (p_buf m) (cfd_chardata cfd'),
                       p_count := ucast (cfd_charcount cfd'),
                       p_height := store (p_height m) (ucast (cfd_charheight cfd')),
                       p_width := store (p_width m) 8\<rparr>))"

definition get_font_giofont ::
  "'d platform \<Rightarrow> 'd sys \<Rightarrow> font_ptrs \<Rightarrow> int \<times> 'd sys \<times> font_ptrs" where
  "get_font_giofont P s m =
     (if p_count m \<noteq> 256 then (- 1, s, m)
      else if p_buf m = None then (- 1, s, m)
      else
        let (i, buf', s') = ioctl (k_gio_font P) GIO_FONT (s\<lparr>errno := 0\<rparr>) (p_buf m)
        in if i \<noteq> 0 then (- 1, s', m)
           else
             (0, s', m\<lparr>p_buf := written (p_buf m) buf',
                       p_count := 256,
                       p_height := store (p_height m) 0,
                       p_width := store (p_width m) 8\<rparr>))"

definition kfont_get_font ::
  "'d platform \<Rightarrow> 'd sys \<Rightarrow> font_ptrs \<Rightarrow> int \<times> 'd sys \<times> font_ptrs" where
  "kfont_get_font P s m =
     (let (ret, s1, m1) = get_font_kdfontop P s m in
      if ret \<le> 0 then (ret, s1, m1)
      else
        let (ret, s2, m2) = get_font_giofontx P s1 m1 in
        if ret \<le> 0 then (ret, s2, m2)
        else get_font_giofont P s2 m2)"

text \<open>The query of \<open>kfont_get_fontsize\<close>: a local \<open>count = 0\<close> and three null pointers.\<close>

definition fontsize_query :: font_ptrs where
  "fontsize_query = \<lparr>p_buf = None, p_count = 0, p_width = None, p_height = None\<rparr>"

definition kfont_get_fontsize :: "'d platform \<Rightarrow> 'd sys \<Rightarrow> u32 \<times> 'd sys" where
  "kfont_get_fontsize P s =
     (let (ret, s', m') = kfont_get_font P s fontsize_query
      in if ret = 0 then (p_count m', s') else (256, s'))"

subsection \<open>Writing: kfont_put_font\<close>

text \<open>\<open>memset(p, 0, n)\<close> on a fresh block of \<open>n\<close> bytes, and \<open>memcpy(dst, src, n)\<close>, which
  is undefined when either block is shorter than \<open>n\<close>.\<close>

definition memset_zero :: "nat \<Rightarrow> u8 list" where
  "memset_zero n = replicate n 0"

definition memcpy :: "u8 list \<Rightarrow> u8 list \<Rightarrow> nat \<Rightarrow> u8 list option" where
  "memcpy dst src n =
     (if n \<le> length src \<and> n \<le> length dst then Some (take n src @ drop n dst) else None)"

definition kdfontop_set_request :: "u8 list \<Rightarrow> u32 \<Rightarrow> u32 \<Rightarrow> u32 \<Rightarrow> console_font_op" where
  "kdfontop_set_request buf count width height =
     \<lparr>cfo_op = KD_FONT_OP_SET, cfo_flags = 0, cfo_width = width, cfo_height = height,
      cfo_charcount = count, cfo_data = Some buf\<rparr>"

text \<open>The assignment to the \<open>unsigned short\<close> fields converts without a check.\<close>

definition piofontx_request :: "u8 list \<Rightarrow> u32 \<Rightarrow> u32 \<Rightarrow> consolefontdesc" where
  "piofontx_request buf count height =
     \<lparr>cfd_charcount = ucast count, cfd_charheight = ucast height, cfd_chardata = Some buf\<rparr>"

text \<open>Second and third attempt (\<open>PIO_FONTX\<close>, then \<open>PIO_FONT\<close>): the end of
  \<open>kfont_put_font\<close>.\<close>

definition put_font_fallback ::
  "'d platform \<Rightarrow> 'd sys \<Rightarrow> u8 list \<Rightarrow> u32 \<Rightarrow> u32 \<Rightarrow> int \<times> 'd sys" where
  "put_font_fallback P s buf count height =
     (let (i, _, s1) = ioctl (k_pio_fontx P) PIO_FONTX s (piofontx_request buf count height)
      in if i = 0 then (0, s1)
         else if errno s1 \<noteq> ENOSYS \<and> errno s1 \<noteq> EINVAL then (- 1, s1)
         else
           let (i, _, s2) = ioctl (k_pio_font P) PIO_FONT s1 (Some buf)
           in if i \<noteq> 0 then (- 1, s2) else (0, s2))"

text \<open>The variation on the first attempt, entered after \<open>KDFONTOP\<close> failed with width 8
  and one of the two codes; \<open>cfo\<close> is the structure of the first attempt.\<close>

definition put_font_variation ::
  "'d platform \<Rightarrow> 'd sys \<Rightarrow> console_font_op \<Rightarrow> u8 list \<Rightarrow> u32 \<Rightarrow> u32 \<Rightarrow> u32 \<Rightarrow>
     (int \<times> 'd sys) option" where
  "put_font_variation P s cfo buf count width height =
     (if errno s = EINVAL \<and> width = 8 \<and> count \<noteq> 256 \<and> count < 512 then
        let ct = (if count > 256 then 512 else 256) :: u32;
            n = unat (32 * ct)
        in if \<not> malloc_ok P (env s) n then Some (- 1, log_event (Malloc n False) s)
           else
             (case memcpy (memset_zero n) buf (unat (32 * count)) of
                None \<Rightarrow> None
              | Some mybuf \<Rightarrow>
                  let (i, _, s2) = ioctl (k_kdfontop P) KDFONTOP (log_event (Malloc n True) s)
                                     (cfo\<lparr>cfo_data := Some mybuf, cfo_charcount := ct\<rparr>);
                      s3 = log_event Free s2
                  in if i = 0 then Some (0, s3)
                     else Some (put_font_fallback P s3 buf count height))
      else Some (put_font_fallback P s buf count height))"

definition kfont_put_font ::
  "'d platform \<Rightarrow> 'd sys \<Rightarrow> u8 list \<Rightarrow> u32 \<Rightarrow> u32 \<Rightarrow> u32 \<Rightarrow> (int \<times> 'd sys) option" where
  "kfont_put_font P s buf count width0 height0 =
     (let width = (if width0 = 0 then 8 else width0) in
      case (if height0 = 0 then font_charheight buf count width else Some height0) of
        None \<Rightarrow> None
      | Some height \<Rightarrow>
          let (i, cfo, s1) = ioctl (k_kdfontop P) KDFONTOP s
                               (kdfontop_set_request buf count width height)
          in if i = 0 then Some (0, s1)
             else if width \<noteq> 8 \<or> (errno s1 \<noteq> ENOSYS \<and> errno s1 \<noteq> EINVAL) then Some (- 1, s1)
             else put_font_variation P s1 cfo buf count width height)"


subsection \<open>Sample kernels and sample fonts\<close>

text \<open>A kernel without state of its own, given by its answers to the three generations
  of requests; \<open>PIO_FONTRESET\<close> and \<open>malloc\<close> always succeed.\<close>

definition stub ::
  "(console_font_op \<Rightarrow> int + console_font_op) \<Rightarrow> (consolefontdesc \<Rightarrow> int + consolefontdesc) \<Rightarrow>
   (u8 list option \<Rightarrow> int + u8 list option) \<Rightarrow> unit platform" where
  "stub k1 k2 k3 =
     \<lparr>k_kdfontop = (\<lambda>d a. (k1 a, d)),
      k_gio_fontx = (\<lambda>d a. (k2 a, d)),
      k_pio_fontx = (\<lambda>d a. (k2 a, d)),
      k_gio_font = (\<lambda>d a. (k3 a, d)),
      k_pio_font = (\<lambda>d a. (k3 a, d)),
      k_pio_fontreset = (\<lambda>d a. (Inr a, d)),
      malloc_ok = (\<lambda>d n. True)\<rparr>"

definition boot :: "unit sys" where
  "boot = \<lparr>env = (), errno = 0, calls = []\<rparr>"

text \<open>One glyph of width \<open>0xFFFFFFFF\<close> takes \<open>32 * 2 ^ 29\<close> bytes; here all of them are 1.\<close>

definition wide_font :: "u8 list" where
  "wide_font = replicate (2 ^ 34) 1"

text \<open>Two glyphs of width 12 (two bytes a row), all zero but the second byte of row 4
  (counted from 0) of the second glyph.\<close>

definition dot_font :: "u8 list" where
  "dot_font = (replicate 128 0)[73 := 1]"

text \<open>A caller that asks for 512 glyphs, gives no buffer and wants width and height.\<close>

definition sample_query :: font_ptrs where
  "sample_query = \<lparr>p_buf = None, p_count = 512, p_width = Some 0, p_height = Some 0\<rparr>"

text \<open>Four kernels: one without \<open>KDFONTOP\<close> whose \<open>GIO_FONTX\<close> reports 128 glyphs of
  height 14; one that knows only \<open>GIO_FONT\<close> and \<open>PIO_FONT\<close>; one whose \<open>KDFONTOP\<close>
  reports 512 glyphs of 8 by 16; one that rejects \<open>KDFONTOP\<close> as invalid and refuses the
  older requests with \<open>EPERM\<close> (1).\<close>

definition fontx_kernel :: "unit platform" where
  "fontx_kernel =
     stub (\<lambda>a. Inl ENOSYS) (\<lambda>a. Inr (a\<lparr>cfd_charcount := 128, cfd_charheight := 14\<rparr>)) Inr"

definition legacy_kernel :: "unit platform" where
  "legacy_kernel = stub (\<lambda>a. Inl ENOSYS) (\<lambda>a. Inl EINVAL) Inr"

definition modern_kernel :: "unit platform" where
  "modern_kernel =
     stub (\<lambda>a. Inr (a\<lparr>cfo_charcount := 512, cfo_width := 8, cfo_height := 16\<rparr>)) Inr Inr"

definition denied_kernel :: "unit platform" where
  "denied_kernel = stub (\<lambda>a. Inl EINVAL) (\<lambda>a. Inl 1) (\<lambda>a. Inl 1)"

text \<open>Sample fonts for writing: 100 blank glyphs of width 8; 65792 blank glyphs of width 8;
  two blank glyphs of width 16.\<close>

definition font100 :: "u8 list" where
  "font100 = replicate 3200 0"

definition big_font :: "u8 list" where
  "big_font = replicate (32 * 65792) 0"

definition two_wide_glyphs :: "u8 list" where
  "two_wide_glyphs = replicate 128 0"

text \<open>A kernel whose \<open>KDFONTOP\<close> accepts only fonts of 256 or 512 glyphs and rejects any
  other count as an invalid argument.\<close>

definition vga_kernel :: "unit platform" where
  "vga_kernel =
     stub (\<lambda>a. if cfo_charcount a = 256 \<or> cfo_charcount a = 512 then Inr a else Inl EINVAL)
       Inr Inr"

section \<open>Properties of font_charheight\<close>

lemma slot_bound:
  assumes "i < n" "1 \<le> h" "h \<le> 32" "x < (bw::nat)"
  shows "(32 * i + (h - 1)) * bw + x < 32 * n * bw"
proof -
  have "32 * i + (h - 1) + 1 \<le> 32 * n" using assms by simp
  then have "(32 * i + (h - 1) + 1) * bw \<le> 32 * n * bw" by (rule mult_le_mono1)
  moreover have "(32 * i + (h - 1)) * bw + x < (32 * i + (h - 1) + 1) * bw"
    using assms(4) by simp
  ultimately show ?thesis by linarith
qed

lemma index_unat:
  fixes i h x bw :: u32
  assumes "unat i < n" "1 \<le> unat h" "unat h \<le> 32" "unat x < unat bw"
    and "32 * n * unat bw \<le> 2 ^ 32"
  shows "unat ((32 * i + h - 1) * bw + x) = (32 * unat i + (unat h - 1)) * unat bw + unat x"
proof -
  let ?k = "(32 * unat i + (unat h - 1)) * unat bw + unat x"
  have lt: "?k < 2 ^ 32"
    using slot_bound [OF assms(1-4)] assms(5) by linarith
  have "(32 * i + h - 1) * bw + x = (32 * i + (h - 1)) * bw + x" by (simp only: add_diff_eq)
  also have "h - 1 = of_nat (unat h - 1)"
    using assms(2) by (simp add: of_nat_diff)
  also have "(32 * i + of_nat (unat h - 1)) * bw + x = of_nat ?k"
    by simp
  finally have eq: "(32 * i + h - 1) * bw + x = of_nat ?k" .
  have "unat (of_nat ?k :: u32) = ?k"
    by (rule trans [OF unat_of_nat]) (use lt in simp)
  then show ?thesis by (simp only: eq)
qed

lemma unat_succ_lt:
  fixes x b :: u32
  assumes "x < b"
  shows "unat (x + 1) = Suc (unat x)"
  using assms by unat_arith

lemma cols_scan:
  assumes "unat i < n" "1 \<le> unat h" "unat h \<le> 32"
    and "32 * n * unat bw \<le> 2 ^ 32" "32 * n * unat bw \<le> length buf"
  shows "charheight_cols buf bw h i x =
    Some (\<exists>c. unat x \<le> c \<and> c < unat bw \<and> buf ! ((32 * unat i + (unat h - 1)) * unat bw + c) \<noteq> 0)"
  using assms
proof (induction buf bw h i x rule: charheight_cols.induct)
  case (1 buf bw h i x)
  let ?P = "\<lambda>c. buf ! ((32 * unat i + (unat h - 1)) * unat bw + c) \<noteq> 0"
  show ?case
  proof (cases "x < bw")
    case False
    then have "\<not> unat x < unat bw" by (simp add: word_less_nat_alt)
    then have "\<not> (\<exists>c. unat x \<le> c \<and> c < unat bw \<and> ?P c)" by auto
    with False show ?thesis by (subst charheight_cols.simps) simp
  next
    case True
    then have xb: "unat x < unat bw" by (simp add: word_less_nat_alt)
    have ix: "unat ((32 * i + h - 1) * bw + x) = (32 * unat i + (unat h - 1)) * unat bw + unat x"
      using index_unat [OF "1.prems"(1-3) xb "1.prems"(4)] .
    have inb: "(32 * unat i + (unat h - 1)) * unat bw + unat x < length buf"
      using slot_bound [OF "1.prems"(1-3) xb] "1.prems"(5) by linarith
    have rdv: "rd buf ((32 * i + h - 1) * bw + x) = Some (buf ! ((32 * unat i + (unat h - 1)) * unat bw + unat x))"
      using ix inb by (simp add: rd_def)
    show ?thesis
    proof (cases "?P (unat x)")
      case True
      then have "\<exists>c. unat x \<le> c \<and> c < unat bw \<and> ?P c" using xb by blast
      with True \<open>x < bw\<close> rdv show ?thesis by (subst charheight_cols.simps) simp
    next
      case False
      have sx: "unat (x + 1) = Suc (unat x)" using \<open>x < bw\<close> by (rule unat_succ_lt)
      have IH: "charheight_cols buf bw h i (x + 1) =
          Some (\<exists>c. unat (x + 1) \<le> c \<and> c < unat bw \<and> ?P c)"
        using "1.IH" [OF \<open>x < bw\<close> rdv _ "1.prems"] False by simp
      have "(\<exists>c. Suc (unat x) \<le> c \<and> c < unat bw \<and> ?P c) = (\<exists>c. unat x \<le> c \<and> c < unat bw \<and> ?P c)"
        using False by (metis Suc_leD Suc_leI le_neq_implies_less)
      with IH sx False \<open>x < bw\<close> rdv show ?thesis
        by (subst charheight_cols.simps) simp
    qed
  qed
qed


lemma glyphs_scan:
  assumes "1 \<le> unat h" "unat h \<le> 32"
    and "32 * unat count * unat bw \<le> 2 ^ 32" "32 * unat count * unat bw \<le> length buf"
  shows "charheight_glyphs buf count bw h i =
    Some (\<exists>g. unat i \<le> g \<and> g < unat count \<and>
            (\<exists>c<unat bw. buf ! ((32 * g + (unat h - 1)) * unat bw + c) \<noteq> 0))"
  using assms
proof (induction buf count bw h i rule: charheight_glyphs.induct)
  case (1 buf count bw h i)
  let ?Q = "\<lambda>g. \<exists>c<unat bw. buf ! ((32 * g + (unat h - 1)) * unat bw + c) \<noteq> 0"
  show ?case
  proof (cases "i < count")
    case False
    then have "\<not> unat i < unat count" by (simp add: word_less_nat_alt)
    then have "\<not> (\<exists>g. unat i \<le> g \<and> g < unat count \<and> ?Q g)" by auto
    with False show ?thesis by (subst charheight_glyphs.simps) simp
  next
    case True
    then have ic: "unat i < unat count" by (simp add: word_less_nat_alt)
    have cols: "charheight_cols buf bw h i 0 = Some (?Q (unat i))"
      using cols_scan [OF ic "1.prems"(1,2,3,4), of 0] by simp
    show ?thesis
    proof (cases "?Q (unat i)")
      case True
      then have "\<exists>g. unat i \<le> g \<and> g < unat count \<and> ?Q g" using ic by blast
      with True \<open>i < count\<close> cols show ?thesis by (subst charheight_glyphs.simps) simp
    next
      case False
      have si: "unat (i + 1) = Suc (unat i)" using \<open>i < count\<close> by (rule unat_succ_lt)
      have c0: "charheight_cols buf bw h i 0 = Some False" using cols False by simp
      have IH: "charheight_glyphs buf count bw h (i + 1) =
          Some (\<exists>g. unat (i + 1) \<le> g \<and> g < unat count \<and> ?Q g)"
        using "1.IH" [OF \<open>i < count\<close> c0 _ "1.prems"] by simp
      have "(\<exists>g. Suc (unat i) \<le> g \<and> g < unat count \<and> ?Q g) = (\<exists>g. unat i \<le> g \<and> g < unat count \<and> ?Q g)"
        using False by (metis Suc_leD Suc_leI le_neq_implies_less)
      with IH si \<open>i < count\<close> c0 show ?thesis
        by (subst charheight_glyphs.simps) simp
    qed
  qed
qed

lemma glyphs_scan_row_used:
  assumes "1 \<le> unat h" "unat h \<le> 32"
    and "32 * unat count * unat bw \<le> 2 ^ 32" "32 * unat count * unat bw \<le> length buf"
  shows "charheight_glyphs buf count bw h 0 = Some (row_used buf (unat count) (unat bw) (unat h))"
  using glyphs_scan [OF assms, of 0] by (simp add: row_used_def)

lemma rows_scan:
  assumes "unat h \<le> 32"
    and "32 * unat count * unat bw \<le> 2 ^ 32" "32 * unat count * unat bw \<le> length buf"
  shows "\<exists>r. charheight_rows buf count bw h = Some r \<and> unat r \<le> unat h \<and>
           (r \<noteq> 0 \<longrightarrow> row_used buf (unat count) (unat bw) (unat r)) \<and>
           (\<forall>k. unat r < k \<and> k \<le> unat h \<longrightarrow> \<not> row_used buf (unat count) (unat bw) k)"
  using assms
proof (induction buf count bw h rule: charheight_rows.induct)
  case (1 buf count bw h)
  show ?case
  proof (cases "h > 0")
    case False
    then have "h = 0" by (simp add: word_gt_0)
    then show ?thesis by (subst charheight_rows.simps) simp
  next
    case True
    then have h1: "1 \<le> unat h" by (simp add: word_less_nat_alt)
    have g: "charheight_glyphs buf count bw h 0 = Some (row_used buf (unat count) (unat bw) (unat h))"
      using glyphs_scan_row_used [OF h1 "1.prems"] .
    show ?thesis
    proof (cases "row_used buf (unat count) (unat bw) (unat h)")
      case True
      with g \<open>h > 0\<close> have "charheight_rows buf count bw h = Some h"
        by (subst charheight_rows.simps) simp
      moreover have "\<forall>k. unat h < k \<and> k \<le> unat h \<longrightarrow> \<not> row_used buf (unat count) (unat bw) k"
        by auto
      ultimately show ?thesis using True by blast
    next
      case False
      have g0: "charheight_glyphs buf count bw h 0 = Some False" using g False by simp
      have uh: "unat (h - 1) = unat h - 1" using h1 by (simp add: unat_minus_one unat_gt_0 [symmetric])
      have le: "unat (h - 1) \<le> 32" using uh "1.prems"(1) by simp
      obtain r where r: "charheight_rows buf count bw (h - 1) = Some r" "unat r \<le> unat (h - 1)"
          "r \<noteq> 0 \<longrightarrow> row_used buf (unat count) (unat bw) (unat r)"
          "\<forall>k. unat r < k \<and> k \<le> unat (h - 1) \<longrightarrow> \<not> row_used buf (unat count) (unat bw) k"
        using "1.IH" [OF \<open>h > 0\<close> g0 _ le "1.prems"(2,3)] by auto
      have eq: "charheight_rows buf count bw h = Some r"
        using g0 \<open>h > 0\<close> r(1) by (subst charheight_rows.simps) simp
      have "\<forall>k. unat r < k \<and> k \<le> unat h \<longrightarrow> \<not> row_used buf (unat count) (unat bw) k"
      proof (intro allI impI)
        fix k assume k: "unat r < k \<and> k \<le> unat h"
        show "\<not> row_used buf (unat count) (unat bw) k"
        proof (cases "k = unat h")
          case True with False show ?thesis by simp
        next
          case False
          with k uh have "k \<le> unat (h - 1)" by auto
          with k r(4) show ?thesis by blast
        qed
      qed
      with eq r(2,3) uh show ?thesis by auto
    qed
  qed
qed

lemma bytewidth_unat:
  fixes width :: u32
  assumes "unat width + 7 < 2 ^ 32"
  shows "unat ((width + 7) div 8) = (unat width + 7) div 8"
proof -
  have "unat (width + 7) = unat width + 7"
    using assms by (simp add: unat_add_lem [THEN iffD1])
  then show ?thesis by (simp add: unat_div)
qed

lemma spec_height_eqI:
  assumes "r \<le> 32" "r \<noteq> 0 \<longrightarrow> row_used buf n bw r"
    and "\<forall>k. r < k \<and> k \<le> 32 \<longrightarrow> \<not> row_used buf n bw k"
  shows "Max (insert 0 {h \<in> {1..32}. row_used buf n bw h}) = r"
proof (rule Max_eqI)
  show "finite (insert 0 {h \<in> {1..32}. row_used buf n bw h})" by simp
  show "r \<in> insert 0 {h \<in> {1..32}. row_used buf n bw h}"
    using assms(1,2) by (cases "r = 0") auto
  fix y assume "y \<in> insert 0 {h \<in> {1..32}. row_used buf n bw h}"
  then show "y \<le> r" using assms(3) by (cases "r < y") auto
qed


lemma font_charheight_refines:
  assumes "unat width + 7 < 2 ^ 32"
    and "32 * unat count * ((unat width + 7) div 8) \<le> 2 ^ 32"
    and "32 * unat count * ((unat width + 7) div 8) \<le> length buf"
  shows "font_charheight buf count width =
           Some (of_nat (spec_effective_height buf (unat count) (unat width)))"
proof -
  let ?bw = "(width + 7) div 8"
  have bw: "unat ?bw = (unat width + 7) div 8" using assms(1) by (rule bytewidth_unat)
  have "unat (32 :: u32) \<le> 32" by simp
  from rows_scan [OF this, of count ?bw buf] assms(2,3) bw
  obtain r where r: "charheight_rows buf count ?bw 32 = Some r" "unat r \<le> 32"
      "r \<noteq> 0 \<longrightarrow> row_used buf (unat count) (unat ?bw) (unat r)"
      "\<forall>k. unat r < k \<and> k \<le> 32 \<longrightarrow> \<not> row_used buf (unat count) (unat ?bw) k"
    by auto
  have "r \<noteq> 0 \<longleftrightarrow> unat r \<noteq> 0" by (simp add: unat_eq_zero)
  with r have "Max (insert 0 {h \<in> {1..32}. row_used buf (unat count) (unat ?bw) h}) = unat r"
    by (intro spec_height_eqI) auto
  then have "spec_effective_height buf (unat count) (unat width) = unat r"
    by (simp add: spec_effective_height_def bw)
  with r(1) show ?thesis by (simp add: font_charheight_def)
qed

lemma spec_height_le: "spec_effective_height buf n width \<le> 32"
proof -
  let ?S = "insert 0 {h \<in> {1..32}. row_used buf n ((width + 7) div 8) h}"
  have "Max ?S \<in> ?S" by (rule Max_in) simp_all
  then have "Max ?S = 0 \<or> (1 \<le> Max ?S \<and> Max ?S \<le> 32)"
    by (simp only: insert_iff mem_Collect_eq atLeastAtMost_iff) blast
  then have "Max ?S \<le> 32" by (elim disjE conjE) simp_all
  then show ?thesis by (simp only: spec_effective_height_def Let_def)
qed

lemma spec_height_blank:
  assumes "\<forall>k < 32 * n * ((width + 7) div 8). buf ! k = 0"
  shows "spec_effective_height buf n width = 0"
proof -
  let ?bw = "(width + 7) div 8"
  have "\<not> row_used buf n ?bw h" if "1 \<le> h" "h \<le> 32" for h
    unfolding row_used_def using assms slot_bound [OF _ that, of _ n _ ?bw] by blast
  then have "Max (insert 0 {h \<in> {1..32}. row_used buf n ?bw h}) = 0"
    by (intro spec_height_eqI) auto
  then show ?thesis by (simp add: spec_effective_height_def)
qed

lemma spec_height_single_row:
  assumes "g < n" "r < 32" "\<exists>x < (width + 7) div 8. buf ! ((32 * g + r) * ((width + 7) div 8) + x) \<noteq> 0"
    and "\<forall>i r' x. i < n \<and> r' < 32 \<and> x < (width + 7) div 8 \<and> (i, r') \<noteq> (g, r) \<longrightarrow>
           buf ! ((32 * i + r') * ((width + 7) div 8) + x) = 0"
  shows "spec_effective_height buf n width = r + 1"
proof -
  let ?bw = "(width + 7) div 8"
  have used: "row_used buf n ?bw (r + 1)"
    unfolding row_used_def using assms(1,3) by auto
  have unused: "\<not> row_used buf n ?bw k" if "r + 1 < k" "k \<le> 32" for k
  proof
    assume "row_used buf n ?bw k"
    then obtain i x where ix: "i < n" "x < ?bw" "buf ! ((32 * i + (k - 1)) * ?bw + x) \<noteq> 0"
      unfolding row_used_def by blast
    have "k - 1 < 32" "(i, k - 1) \<noteq> (g, r)" using that by auto
    with ix(1,2) assms(4) have "buf ! ((32 * i + (k - 1)) * ?bw + x) = 0" by blast
    with ix(3) show False by simp
  qed
  have "Max (insert 0 {h \<in> {1..32}. row_used buf n ?bw h}) = r + 1"
    using assms(2) used unused by (intro spec_height_eqI) auto
  then show ?thesis by (simp add: spec_effective_height_def)
qed

lemma cols_no_bytes: "charheight_cols buf 0 h i x = Some False"
  by (subst charheight_cols.simps) simp

lemma glyphs_no_bytes: "charheight_glyphs buf count 0 h i = Some False"
proof (induction buf count "0 :: u32" h i rule: charheight_glyphs.induct)
  case (1 buf count h i)
  show ?case
  proof (cases "i < count")
    case True
    with "1.hyps" [OF True cols_no_bytes] show ?thesis
      by (subst charheight_glyphs.simps) (simp add: cols_no_bytes)
  next
    case False
    then show ?thesis by (subst charheight_glyphs.simps) simp
  qed
qed

lemma rows_no_bytes: "charheight_rows buf count 0 h = Some 0"
proof (induction buf count "0 :: u32" h rule: charheight_rows.induct)
  case (1 buf count h)
  show ?case
  proof (cases "h > 0")
    case True
    with "1.hyps" [OF True glyphs_no_bytes] show ?thesis
      by (subst charheight_rows.simps) (simp add: glyphs_no_bytes)
  next
    case False
    then have "h = 0" by (simp add: word_gt_0)
    then show ?thesis by (subst charheight_rows.simps) simp
  qed
qed

text \<open>
  C2, as amended. The index \<open>(32 * i + h - 1) * bytewidth + x\<close> and the sum \<open>width + 7\<close> are
  computed in 32 bits. Whenever neither wraps (\<open>width + 7 < 2 ^ 32\<close> and
  \<open>32 * count * ceil(width / 8) \<le> 2 ^ 32\<close>) and the buffer holds at least
  \<open>count * 32 * ceil(width / 8)\<close> bytes, \<open>font_charheight\<close> reads inside the buffer and
  returns the largest row index in 1..32 in which some glyph has a nonzero byte, and 0
  when there is none (this is \<open>spec_effective_height\<close>). It returns 0 when all the
  bytes of the glyphs are zero, and \<open>r + 1\<close> when row \<open>r\<close> (counted from 0) of one glyph is
  the only row with a nonzero byte.
\<close>

theorem font_charheight_effective_height:
  assumes "unat width + 7 < 2 ^ 32"
    and "32 * unat count * ((unat width + 7) div 8) \<le> 2 ^ 32"
    and "32 * unat count * ((unat width + 7) div 8) \<le> length buf"
  shows "font_charheight buf count width =
           Some (of_nat (spec_effective_height buf (unat count) (unat width)))
       \<and> spec_effective_height buf (unat count) (unat width) \<le> 32
       \<and> ((\<forall>k < 32 * unat count * ((unat width + 7) div 8). buf ! k = 0) \<longrightarrow>
            font_charheight buf count width = Some 0)
       \<and> (\<forall>g r. g < unat count \<and> r < 32 \<and>
             (\<exists>x < (unat width + 7) div 8. buf ! ((32 * g + r) * ((unat width + 7) div 8) + x) \<noteq> 0) \<and>
             (\<forall>i r' x. i < unat count \<and> r' < 32 \<and> x < (unat width + 7) div 8 \<and> (i, r') \<noteq> (g, r) \<longrightarrow>
                buf ! ((32 * i + r') * ((unat width + 7) div 8) + x) = 0) \<longrightarrow>
            font_charheight buf count width = Some (of_nat (r + 1)))"
proof -
  note main = font_charheight_refines [OF assms]
  have blank: "font_charheight buf count width = Some 0"
    if "\<forall>k < 32 * unat count * ((unat width + 7) div 8). buf ! k = 0"
    using main spec_height_blank [OF that] by simp
  have single: "font_charheight buf count width = Some (of_nat (r + 1))"
    if "g < unat count \<and> r < 32 \<and>
        (\<exists>x < (unat width + 7) div 8. buf ! ((32 * g + r) * ((unat width + 7) div 8) + x) \<noteq> 0) \<and>
        (\<forall>i r' x. i < unat count \<and> r' < 32 \<and> x < (unat width + 7) div 8 \<and> (i, r') \<noteq> (g, r) \<longrightarrow>
           buf ! ((32 * i + r') * ((unat width + 7) div 8) + x) = 0)" for g r
  proof -
    have "spec_effective_height buf (unat count) (unat width) = r + 1"
      using that by (intro spec_height_single_row [of g]) blast+
    with main show ?thesis by simp
  qed
  from main spec_height_le blank single show ?thesis by blast
qed

lemma dot_font_nth: "k < 128 \<Longrightarrow> dot_font ! k = (if k = 73 then 1 else 0)"
  by (simp add: dot_font_def nth_list_update)

theorem font_charheight_effective_height_witness:
  "unat (12 :: u32) + 7 < 2 ^ 32
   \<and> 32 * unat (2 :: u32) * ((unat (12 :: u32) + 7) div 8) \<le> 2 ^ 32
   \<and> 32 * unat (2 :: u32) * ((unat (12 :: u32) + 7) div 8) \<le> length dot_font
   \<and> dot_font ! ((32 * 1 + 4) * 2 + 1) \<noteq> 0
   \<and> font_charheight dot_font 2 12 = Some 5"
proof -
  have h1: "unat (12 :: u32) + 7 < 2 ^ 32" by simp
  have h2: "32 * unat (2 :: u32) * ((unat (12 :: u32) + 7) div 8) \<le> 2 ^ 32" by simp
  have h3: "32 * unat (2 :: u32) * ((unat (12 :: u32) + 7) div 8) \<le> length dot_font"
    by (simp add: dot_font_def)
  have bw: "(unat (12 :: u32) + 7) div 8 = 2" by simp
  have dot: "dot_font ! ((32 * 1 + 4) * 2 + 1) \<noteq> 0" by (simp add: dot_font_nth)
  have others: "dot_font ! ((32 * i + r') * 2 + x) = 0"
    if "i < 2 \<and> r' < 32 \<and> x < 2 \<and> (i, r') \<noteq> (1, 4)" for i r' x :: nat
  proof -
    have "(32 * i + r') * 2 + x < 128" using that by simp
    moreover have "(32 * i + r') * 2 + x \<noteq> 73" using that by auto presburger
    ultimately show ?thesis by (simp add: dot_font_nth)
  qed
  have prem: "(1 :: nat) < unat (2 :: u32) \<and> (4 :: nat) < 32 \<and>
      (\<exists>x < (unat (12 :: u32) + 7) div 8.
         dot_font ! ((32 * 1 + 4) * ((unat (12 :: u32) + 7) div 8) + x) \<noteq> 0) \<and>
      (\<forall>i r' x. i < unat (2 :: u32) \<and> r' < 32 \<and> x < (unat (12 :: u32) + 7) div 8 \<and>
         (i, r') \<noteq> (1, 4) \<longrightarrow>
         dot_font ! ((32 * i + r') * ((unat (12 :: u32) + 7) div 8) + x) = 0)"
    unfolding bw
  proof (intro conjI allI impI)
    show "(1 :: nat) < unat (2 :: u32)" by simp
    show "(4 :: nat) < 32" by simp
    show "\<exists>x<2. dot_font ! ((32 * 1 + 4) * 2 + x) \<noteq> 0"
      using dot by (intro exI [of _ 1]) simp
    fix i r' x :: nat
    assume "i < unat (2 :: u32) \<and> r' < 32 \<and> x < 2 \<and> (i, r') \<noteq> (1, 4)"
    then show "dot_font ! ((32 * i + r') * 2 + x) = 0" by (intro others) simp
  qed
  have "font_charheight dot_font 2 12 = Some (of_nat (4 + 1))"
    by (rule font_charheight_effective_height [OF h1 h2 h3, THEN conjunct2, THEN conjunct2,
          THEN conjunct2, rule_format, OF prem])
  then show ?thesis using h1 h2 h3 dot by simp
qed

lemma wide_font_length: "length wide_font = 2 ^ 34"
  by (simp only: wide_font_def length_replicate)

lemma wide_font_nth: "k < 2 ^ 34 \<Longrightarrow> wide_font ! k = 1"
  by (simp only: wide_font_def nth_replicate)

text \<open>
  C2 fails where the 32-bit arithmetic wraps: for the width \<open>0xFFFFFFFF\<close> the sum
  \<open>width + 7\<close> is 6, so \<open>bytewidth\<close> is 0, no byte is scanned and the result is 0,
  although every byte of the one glyph is nonzero and the effective height is 32.
\<close>

theorem font_charheight_width_wraps_counterexample:
  "1 \<le> unat (1 :: u32) \<and> 1 \<le> unat (0xFFFFFFFF :: u32)
   \<and> unat (1 :: u32) * 32 * ((unat (0xFFFFFFFF :: u32) + 7) div 8) \<le> length wide_font
   \<and> spec_effective_height wide_font (unat (1 :: u32)) (unat (0xFFFFFFFF :: u32)) = 32
   \<and> font_charheight wide_font 1 0xFFFFFFFF = Some 0"
proof -
  have bw: "(unat (0xFFFFFFFF :: u32) + 7) div 8 = 536870912" by simp
  have len: "unat (1 :: u32) * 32 * ((unat (0xFFFFFFFF :: u32) + 7) div 8) \<le> length wide_font"
    unfolding bw wide_font_length by simp
  have "wide_font ! ((32 * 0 + 31) * 536870912 + 0) = 1"
    by (rule wide_font_nth) simp
  then have "row_used wide_font 1 536870912 32"
    unfolding row_used_def by (intro exI [of _ 0] conjI) simp_all
  then have "Max (insert 0 {h \<in> {1..32}. row_used wide_font 1 536870912 h}) = 32"
    by (intro spec_height_eqI) auto
  then have spec: "spec_effective_height wide_font (unat (1 :: u32)) (unat (0xFFFFFFFF :: u32)) = 32"
    by (simp add: spec_effective_height_def)
  have "(0xFFFFFFFF + 7 :: u32) div 8 = 0" by simp
  then have code: "font_charheight wide_font 1 0xFFFFFFFF = Some 0"
    by (simp only: font_charheight_def rows_no_bytes)
  from len spec code show ?thesis by simp
qed

section \<open>Reading a font\<close>

lemma ioctl_ok:
  "entry (env s) a = (Inr a', d) \<Longrightarrow>
   ioctl entry request s a = (0, a', s\<lparr>env := d, calls := calls s @ [request a]\<rparr>)"
  by (simp add: ioctl_def)

lemma ioctl_fail:
  "entry (env s) a = (Inl e, d) \<Longrightarrow>
   ioctl entry request s a = (- 1, a, s\<lparr>env := d, errno := e, calls := calls s @ [request a]\<rparr>)"
  by (simp add: ioctl_def)

lemma get_font_kdfontop_ok:
  assumes "k_kdfontop P (env s) (kdfontop_get_request m) = (Inr cfo', d)"
  shows "get_font_kdfontop P s m =
    (0, s\<lparr>env := d, errno := 0, calls := calls s @ [KDFONTOP (kdfontop_get_request m)]\<rparr>,
     m\<lparr>p_buf := written (p_buf m) (cfo_data cfo'), p_count := cfo_charcount cfo',
       p_height := store (p_height m) (cfo_height cfo'),
       p_width := store (p_width m) (cfo_width cfo')\<rparr>)"
  using assms by (simp add: get_font_kdfontop_def ioctl_def)

lemma get_font_kdfontop_fail:
  assumes "k_kdfontop P (env s) (kdfontop_get_request m) = (Inl e, d)"
  shows "get_font_kdfontop P s m =
    (if e \<noteq> ENOSYS \<and> e \<noteq> EINVAL then - 1 else 1,
     s\<lparr>env := d, errno := e, calls := calls s @ [KDFONTOP (kdfontop_get_request m)]\<rparr>, m)"
  using assms by (simp add: get_font_kdfontop_def ioctl_def)

lemma get_font_giofontx_big:
  "p_count m > USHRT_MAX \<Longrightarrow> get_font_giofontx P s m = (- 1, s, m)"
  by (simp add: get_font_giofontx_def)

lemma get_font_giofontx_ok:
  assumes "\<not> p_count m > USHRT_MAX"
    and "k_gio_fontx P (env s) (giofontx_request m) = (Inr cfd', d)"
  shows "get_font_giofontx P s m =
    (0, s\<lparr>env := d, errno := 0, calls := calls s @ [GIO_FONTX (giofontx_request m)]\<rparr>,
     m\<lparr>p_buf := written (p_buf m) (cfd_chardata cfd'), p_count := ucast (cfd_charcount cfd'),
       p_height := store (p_height m) (ucast (cfd_charheight cfd')),
       p_width := store (p_width m) 8\<rparr>)"
  using assms by (simp add: get_font_giofontx_def ioctl_def)

lemma get_font_giofontx_fail:
  assumes "\<not> p_count m > USHRT_MAX"
    and "k_gio_fontx P (env s) (giofontx_request m) = (Inl e, d)"
  shows "get_font_giofontx P s m =
    (if e \<noteq> ENOSYS \<and> e \<noteq> EINVAL then - 1 else 1,
     s\<lparr>env := d, errno := e, calls := calls s @ [GIO_FONTX (giofontx_request m)]\<rparr>, m)"
  using assms by (simp add: get_font_giofontx_def ioctl_def)

lemma get_font_giofont_reject:
  "p_count m \<noteq> 256 \<or> p_buf m = None \<Longrightarrow> get_font_giofont P s m = (- 1, s, m)"
  by (auto simp: get_font_giofont_def)

lemma get_font_giofont_ok:
  assumes "p_count m = 256" "p_buf m \<noteq> None"
    and "k_gio_font P (env s) (p_buf m) = (Inr buf', d)"
  shows "get_font_giofont P s m =
    (0, s\<lparr>env := d, errno := 0, calls := calls s @ [GIO_FONT (p_buf m)]\<rparr>,
     m\<lparr>p_buf := written (p_buf m) buf', p_count := 256,
       p_height := store (p_height m) 0, p_width := store (p_width m) 8\<rparr>)"
  using assms by (auto simp: get_font_giofont_def ioctl_def)

lemma get_font_giofont_fail:
  assumes "p_count m = 256" "p_buf m \<noteq> None"
    and "k_gio_font P (env s) (p_buf m) = (Inl e, d)"
  shows "get_font_giofont P s m =
    (- 1, s\<lparr>env := d, errno := e, calls := calls s @ [GIO_FONT (p_buf m)]\<rparr>, m)"
  using assms by (auto simp: get_font_giofont_def ioctl_def)

text \<open>Each probe has one of finitely many shapes of result.\<close>

lemma get_font_kdfontop_cases:
  obtains (ok) cfo' d where "k_kdfontop P (env s) (kdfontop_get_request m) = (Inr cfo', d)"
  | (fail) e d where "k_kdfontop P (env s) (kdfontop_get_request m) = (Inl e, d)"
  by (cases "k_kdfontop P (env s) (kdfontop_get_request m)") (metis sum.exhaust)

lemma get_font_giofontx_cases:
  obtains (ok) cfd' d where "k_gio_fontx P (env s) (giofontx_request m) = (Inr cfd', d)"
  | (fail) e d where "k_gio_fontx P (env s) (giofontx_request m) = (Inl e, d)"
  by (cases "k_gio_fontx P (env s) (giofontx_request m)") (metis sum.exhaust)

lemma get_font_giofont_cases:
  obtains (ok) buf' d where "k_gio_font P (env s) (p_buf m) = (Inr buf', d)"
  | (fail) e d where "k_gio_font P (env s) (p_buf m) = (Inl e, d)"
  by (cases "k_gio_font P (env s) (p_buf m)") (metis sum.exhaust)

lemma get_font_kdfontop_shape:
  assumes "get_font_kdfontop P s m = (r, s', m')"
  shows "(r = 0 \<or> r = - 1 \<or> r = 1) \<and> (r \<noteq> 0 \<longrightarrow> m' = m)
       \<and> calls s' = calls s @ [KDFONTOP (kdfontop_get_request m)]"
proof (cases P s m rule: get_font_kdfontop_cases)
  case (ok cfo' d)
  show ?thesis using assms by (auto simp: get_font_kdfontop_ok [OF ok])
next
  case (fail e d)
  show ?thesis using assms by (auto simp: get_font_kdfontop_fail [OF fail] split: if_splits)
qed

lemma get_font_giofontx_shape:
  assumes "get_font_giofontx P s m = (r, s', m')"
  shows "(r = 0 \<or> r = - 1 \<or> r = 1) \<and> (r \<noteq> 0 \<longrightarrow> m' = m)
       \<and> (calls s' = calls s \<or> calls s' = calls s @ [GIO_FONTX (giofontx_request m)])"
proof (cases "p_count m > USHRT_MAX")
  case True
  show ?thesis using assms by (auto simp: get_font_giofontx_big [OF True])
next
  case False
  show ?thesis
  proof (cases P s m rule: get_font_giofontx_cases)
    case (ok cfd' d)
    show ?thesis using assms by (auto simp: get_font_giofontx_ok [OF False ok])
  next
    case (fail e d)
    show ?thesis using assms by (auto simp: get_font_giofontx_fail [OF False fail] split: if_splits)
  qed
qed

lemma get_font_giofont_shape:
  assumes "get_font_giofont P s m = (r, s', m')"
  shows "(r = 0 \<or> r = - 1) \<and> (r \<noteq> 0 \<longrightarrow> m' = m)
       \<and> (calls s' = calls s \<or> calls s' = calls s @ [GIO_FONT (p_buf m)])"
proof (cases "p_count m \<noteq> 256 \<or> p_buf m = None")
  case True
  show ?thesis using assms by (auto simp: get_font_giofont_reject [OF True])
next
  case False
  then have c: "p_count m = 256" "p_buf m \<noteq> None" by auto
  show ?thesis
  proof (cases P s m rule: get_font_giofont_cases)
    case (ok buf' d)
    show ?thesis using assms by (auto simp: get_font_giofont_ok [OF c ok])
  next
    case (fail e d)
    show ?thesis using assms by (auto simp: get_font_giofont_fail [OF c fail])
  qed
qed


lemma kfont_get_font_tier1:
  assumes "get_font_kdfontop P s m = (r1, s1, m1)" "r1 \<noteq> 1"
  shows "kfont_get_font P s m = (r1, s1, m1)"
  using assms get_font_kdfontop_shape [OF assms(1)] by (auto simp: kfont_get_font_def)

lemma kfont_get_font_tier2:
  assumes "get_font_kdfontop P s m = (1, s1, m1)"
    and "get_font_giofontx P s1 m1 = (r2, s2, m2)" "r2 \<noteq> 1"
  shows "kfont_get_font P s m = (r2, s2, m2)"
  using assms get_font_giofontx_shape [OF assms(2)] by (auto simp: kfont_get_font_def)

lemma kfont_get_font_tier3:
  assumes "get_font_kdfontop P s m = (1, s1, m1)"
    and "get_font_giofontx P s1 m1 = (1, s2, m2)"
  shows "kfont_get_font P s m = get_font_giofont P s2 m2"
  using assms by (simp add: kfont_get_font_def)

text \<open>
  C3. \<open>kfont_get_font\<close> always issues the \<open>KDFONTOP\<close> request first. When that probe
  reports success (0) or a hard error (-1), its result is the result of the call and no
  other request is made. Only when it reports "not supported" (1) does the \<open>GIO_FONTX\<close>
  probe run, from the state the first probe left; its result is returned when it is 0 or
  -1, and then the requests made are those of the first two probes only, so \<open>GIO_FONT\<close>
  is never issued. Only when the second probe also reports 1 does the \<open>GIO_FONT\<close> probe
  run, and its result, 0 or -1, is returned as it is.
\<close>

theorem kfont_get_font_cascade:
  assumes "get_font_kdfontop P s m = (r1, s1, m1)"
    and "get_font_giofontx P s1 m1 = (r2, s2, m2)"
  shows "calls s1 = calls s @ [KDFONTOP (kdfontop_get_request m)]
       \<and> (r1 = 0 \<or> r1 = - 1 \<or> r1 = 1)
       \<and> (r1 \<noteq> 1 \<longrightarrow> kfont_get_font P s m = (r1, s1, m1))
       \<and> (r1 = 1 \<longrightarrow>
            (r2 = 0 \<or> r2 = - 1 \<or> r2 = 1)
          \<and> (r2 \<noteq> 1 \<longrightarrow>
                kfont_get_font P s m = (r2, s2, m2)
              \<and> (calls s2 = calls s @ [KDFONTOP (kdfontop_get_request m)]
                 \<or> calls s2 = calls s @ [KDFONTOP (kdfontop_get_request m),
                                          GIO_FONTX (giofontx_request m)]))
          \<and> (r2 = 1 \<longrightarrow>
                kfont_get_font P s m = get_font_giofont P s2 m2
              \<and> (fst (get_font_giofont P s2 m2) = 0 \<or> fst (get_font_giofont P s2 m2) = - 1)))"
proof -
  note t1 = get_font_kdfontop_shape [OF assms(1)]
  note t2 = get_font_giofontx_shape [OF assms(2)]
  have a: "r1 \<noteq> 1 \<longrightarrow> kfont_get_font P s m = (r1, s1, m1)"
    using kfont_get_font_tier1 [OF assms(1)] by blast
  have m1: "r1 = 1 \<longrightarrow> m1 = m" using t1 by simp
  have b: "r1 = 1 \<longrightarrow> r2 \<noteq> 1 \<longrightarrow> kfont_get_font P s m = (r2, s2, m2)"
    using kfont_get_font_tier2 [OF _ assms(2)] assms(1) by blast
  have tr: "r1 = 1 \<longrightarrow>
      calls s2 = calls s @ [KDFONTOP (kdfontop_get_request m)]
    \<or> calls s2 = calls s @ [KDFONTOP (kdfontop_get_request m), GIO_FONTX (giofontx_request m)]"
    using t1 t2 m1 by auto
  have c: "r1 = 1 \<longrightarrow> r2 = 1 \<longrightarrow> kfont_get_font P s m = get_font_giofont P s2 m2"
    using kfont_get_font_tier3 assms by blast
  have d: "fst (get_font_giofont P s2 m2) = 0 \<or> fst (get_font_giofont P s2 m2) = - 1"
    using get_font_giofont_shape [of P s2 m2] by (cases "get_font_giofont P s2 m2") auto
  from t1 t2 a b tr c d show ?thesis by blast
qed

lemma stub_simps:
  "k_kdfontop (stub k1 k2 k3) d a = (k1 a, d)"
  "k_gio_fontx (stub k1 k2 k3) d b = (k2 b, d)"
  "k_pio_fontx (stub k1 k2 k3) d b = (k2 b, d)"
  "k_gio_font (stub k1 k2 k3) d c = (k3 c, d)"
  "k_pio_font (stub k1 k2 k3) d c = (k3 c, d)"
  "malloc_ok (stub k1 k2 k3) d n = True"
  by (simp_all add: stub_def)

theorem kfont_get_font_cascade_witness:
  "get_font_kdfontop fontx_kernel boot sample_query =
     (1, \<lparr>env = (), errno = ENOSYS, calls = [KDFONTOP (kdfontop_get_request sample_query)]\<rparr>,
      sample_query)
   \<and> get_font_giofontx fontx_kernel
        \<lparr>env = (), errno = ENOSYS, calls = [KDFONTOP (kdfontop_get_request sample_query)]\<rparr>
        sample_query =
     (0, \<lparr>env = (), errno = 0, calls = [KDFONTOP (kdfontop_get_request sample_query),
                                        GIO_FONTX (giofontx_request sample_query)]\<rparr>,
      \<lparr>p_buf = None, p_count = 128, p_width = Some 8, p_height = Some 14\<rparr>)
   \<and> kfont_get_font fontx_kernel boot sample_query =
     (0, \<lparr>env = (), errno = 0, calls = [KDFONTOP (kdfontop_get_request sample_query),
                                        GIO_FONTX (giofontx_request sample_query)]\<rparr>,
      \<lparr>p_buf = None, p_count = 128, p_width = Some 8, p_height = Some 14\<rparr>)"
proof -
  let ?s1 = "\<lparr>env = (), errno = ENOSYS, calls = [KDFONTOP (kdfontop_get_request sample_query)]\<rparr>"
  have h1: "get_font_kdfontop fontx_kernel boot sample_query = (1, ?s1, sample_query)"
    by (simp add: get_font_kdfontop_def ioctl_def fontx_kernel_def stub_simps boot_def)
  have h2: "get_font_giofontx fontx_kernel ?s1 sample_query =
     (0, \<lparr>env = (), errno = 0, calls = [KDFONTOP (kdfontop_get_request sample_query),
                                        GIO_FONTX (giofontx_request sample_query)]\<rparr>,
      \<lparr>p_buf = None, p_count = 128, p_width = Some 8, p_height = Some 14\<rparr>)"
    by (simp add: get_font_giofontx_def ioctl_def fontx_kernel_def stub_simps sample_query_def
          USHRT_MAX_def giofontx_request_def written_def store_def)
  from kfont_get_font_cascade [OF h1 h2] h1 h2 show ?thesis by simp
qed


text \<open>
  C4. When the device call of the \<open>KDFONTOP\<close> probe fails with code \<open>e\<close>, the probe
  returns 1 (not supported) exactly when \<open>e\<close> is \<open>ENOSYS\<close> or \<open>EINVAL\<close>, and -1 (hard
  error) for every other code. The \<open>GIO_FONTX\<close> probe, which makes its device call when
  the count is at most \<open>USHRT_MAX\<close>, classifies the failure of that call in the same way.
\<close>

theorem probe_failure_classification:
  "(k_kdfontop P (env s) (kdfontop_get_request m) = (Inl e, d) \<longrightarrow>
      fst (get_font_kdfontop P s m) = (if e = ENOSYS \<or> e = EINVAL then 1 else - 1))
   \<and> (p_count m \<le> USHRT_MAX \<and> k_gio_fontx P (env s) (giofontx_request m) = (Inl e', d') \<longrightarrow>
      fst (get_font_giofontx P s m) = (if e' = ENOSYS \<or> e' = EINVAL then 1 else - 1))"
proof (intro conjI impI)
  assume "k_kdfontop P (env s) (kdfontop_get_request m) = (Inl e, d)"
  then show "fst (get_font_kdfontop P s m) = (if e = ENOSYS \<or> e = EINVAL then 1 else - 1)"
    by (simp add: get_font_kdfontop_fail)
next
  assume a: "p_count m \<le> USHRT_MAX \<and> k_gio_fontx P (env s) (giofontx_request m) = (Inl e', d')"
  then have "\<not> p_count m > USHRT_MAX" by (simp add: not_less)
  with a show "fst (get_font_giofontx P s m) = (if e' = ENOSYS \<or> e' = EINVAL then 1 else - 1)"
    by (simp add: get_font_giofontx_fail)
qed

theorem probe_failure_classification_witness:
  "k_kdfontop denied_kernel (env boot) (kdfontop_get_request sample_query) = (Inl EINVAL, ())
   \<and> fst (get_font_kdfontop denied_kernel boot sample_query) = 1
   \<and> p_count sample_query \<le> USHRT_MAX
   \<and> k_gio_fontx denied_kernel (env boot) (giofontx_request sample_query) = (Inl 1, ())
   \<and> fst (get_font_giofontx denied_kernel boot sample_query) = - 1"
proof -
  have k1: "k_kdfontop denied_kernel (env boot) (kdfontop_get_request sample_query) = (Inl EINVAL, ())"
    by (simp add: denied_kernel_def stub_simps)
  have c: "p_count sample_query \<le> USHRT_MAX"
    by (simp add: sample_query_def USHRT_MAX_def)
  have k2: "k_gio_fontx denied_kernel (env boot) (giofontx_request sample_query) = (Inl 1, ())"
    by (simp add: denied_kernel_def stub_simps)
  from probe_failure_classification [of denied_kernel boot sample_query EINVAL "()" 1 "()"] k1 k2 c
  show ?thesis by (simp add: ENOSYS_def EINVAL_def)
qed

text \<open>
  C5 fails for the third probe: on a kernel whose \<open>GIO_FONT\<close> succeeds, and with the
  count 256 that this probe asks for, a null buffer alone makes \<open>get_font_giofont\<close>
  return -1, and no count or geometry is reported.
\<close>

theorem giofont_null_buffer_counterexample:
  "k_gio_font legacy_kernel (env boot) None = (Inr None, ())
   \<and> get_font_giofont legacy_kernel boot
        \<lparr>p_buf = None, p_count = 256, p_width = Some 0, p_height = Some 0\<rparr> =
      (- 1, boot, \<lparr>p_buf = None, p_count = 256, p_width = Some 0, p_height = Some 0\<rparr>)"
  by (simp add: get_font_giofont_def legacy_kernel_def stub_simps)

text \<open>
  C5, as amended. With a null buffer the \<open>KDFONTOP\<close> probe and the \<open>GIO_FONTX\<close> probe pass
  the null pointer on to the device and, whenever the device call succeeds, return 0 with
  the count, width and height the device reported (width 8 for \<open>GIO_FONTX\<close>); no buffer
  exists afterwards either. The \<open>GIO_FONT\<close> probe rejects a null buffer with -1 without
  calling the device and without changing anything.
\<close>

theorem probes_null_buffer:
  assumes "p_buf m = None"
  shows "cfo_data (kdfontop_get_request m) = None
       \<and> (\<forall>cfo' d. k_kdfontop P (env s) (kdfontop_get_request m) = (Inr cfo', d) \<longrightarrow>
            get_font_kdfontop P s m =
              (0, s\<lparr>env := d, errno := 0, calls := calls s @ [KDFONTOP (kdfontop_get_request m)]\<rparr>,
               \<lparr>p_buf = None, p_count = cfo_charcount cfo',
                p_width = store (p_width m) (cfo_width cfo'),
                p_height = store (p_height m) (cfo_height cfo')\<rparr>))
       \<and> cfd_chardata (giofontx_request m) = None
       \<and> (\<forall>cfd' d. p_count m \<le> USHRT_MAX \<and>
               k_gio_fontx P (env s) (giofontx_request m) = (Inr cfd', d) \<longrightarrow>
            get_font_giofontx P s m =
              (0, s\<lparr>env := d, errno := 0, calls := calls s @ [GIO_FONTX (giofontx_request m)]\<rparr>,
               \<lparr>p_buf = None, p_count = ucast (cfd_charcount cfd'),
                p_width = store (p_width m) 8,
                p_height = store (p_height m) (ucast (cfd_charheight cfd'))\<rparr>))
       \<and> get_font_giofont P s m = (- 1, s, m)"
proof (intro conjI allI impI)
  show "cfo_data (kdfontop_get_request m) = None"
    using assms by (simp add: kdfontop_get_request_def)
  show "cfd_chardata (giofontx_request m) = None"
    using assms by (simp add: giofontx_request_def)
  show "get_font_giofont P s m = (- 1, s, m)"
    using assms by (simp add: get_font_giofont_reject)
next
  fix cfo' d
  assume "k_kdfontop P (env s) (kdfontop_get_request m) = (Inr cfo', d)"
  from get_font_kdfontop_ok [OF this] assms
  show "get_font_kdfontop P s m =
      (0, s\<lparr>env := d, errno := 0, calls := calls s @ [KDFONTOP (kdfontop_get_request m)]\<rparr>,
       \<lparr>p_buf = None, p_count = cfo_charcount cfo',
        p_width = store (p_width m) (cfo_width cfo'),
        p_height = store (p_height m) (cfo_height cfo')\<rparr>)"
    by (simp add: written_def)
next
  fix cfd' d
  assume a: "p_count m \<le> USHRT_MAX \<and> k_gio_fontx P (env s) (giofontx_request m) = (Inr cfd', d)"
  then have "\<not> p_count m > USHRT_MAX" by (simp add: not_less)
  from get_font_giofontx_ok [OF this a [THEN conjunct2]] assms
  show "get_font_giofontx P s m =
      (0, s\<lparr>env := d, errno := 0, calls := calls s @ [GIO_FONTX (giofontx_request m)]\<rparr>,
       \<lparr>p_buf = None, p_count = ucast (cfd_charcount cfd'),
        p_width = store (p_width m) 8,
        p_height = store (p_height m) (ucast (cfd_charheight cfd'))\<rparr>)"
    by (simp add: written_def)
qed

theorem probes_null_buffer_witness:
  "p_buf sample_query = None
   \<and> k_kdfontop modern_kernel (env boot) (kdfontop_get_request sample_query) =
       (Inr ((kdfontop_get_request sample_query)
               \<lparr>cfo_charcount := 512, cfo_width := 8, cfo_height := 16\<rparr>), ())
   \<and> get_font_kdfontop modern_kernel boot sample_query =
       (0, \<lparr>env = (), errno = 0, calls = [KDFONTOP (kdfontop_get_request sample_query)]\<rparr>,
        \<lparr>p_buf = None, p_count = 512, p_width = Some 8, p_height = Some 16\<rparr>)
   \<and> p_count sample_query \<le> USHRT_MAX
   \<and> k_gio_fontx fontx_kernel (env boot) (giofontx_request sample_query) =
       (Inr ((giofontx_request sample_query)\<lparr>cfd_charcount := 128, cfd_charheight := 14\<rparr>), ())
   \<and> get_font_giofontx fontx_kernel boot sample_query =
       (0, \<lparr>env = (), errno = 0, calls = [GIO_FONTX (giofontx_request sample_query)]\<rparr>,
        \<lparr>p_buf = None, p_count = 128, p_width = Some 8, p_height = Some 14\<rparr>)
   \<and> get_font_giofont legacy_kernel boot sample_query = (- 1, boot, sample_query)"
proof -
  have n: "p_buf sample_query = None" by (simp add: sample_query_def)
  have c: "p_count sample_query \<le> USHRT_MAX" by (simp add: sample_query_def USHRT_MAX_def)
  have k1: "k_kdfontop modern_kernel (env boot) (kdfontop_get_request sample_query) =
       (Inr ((kdfontop_get_request sample_query)
               \<lparr>cfo_charcount := 512, cfo_width := 8, cfo_height := 16\<rparr>), ())"
    by (simp add: modern_kernel_def stub_simps)
  have k2: "k_gio_fontx fontx_kernel (env boot) (giofontx_request sample_query) =
       (Inr ((giofontx_request sample_query)\<lparr>cfd_charcount := 128, cfd_charheight := 14\<rparr>), ())"
    by (simp add: fontx_kernel_def stub_simps)
  note t1 = probes_null_buffer [OF n, of modern_kernel boot, THEN conjunct2, THEN conjunct1,
      rule_format, OF k1]
  note t2 = probes_null_buffer [OF n, of fontx_kernel boot, THEN conjunct2, THEN conjunct2,
      THEN conjunct2, THEN conjunct1, rule_format, OF conjI [OF c k2]]
  note t3 = probes_null_buffer [OF n, of legacy_kernel boot, THEN conjunct2, THEN conjunct2,
      THEN conjunct2, THEN conjunct2]
  have "get_font_kdfontop modern_kernel boot sample_query =
       (0, \<lparr>env = (), errno = 0, calls = [KDFONTOP (kdfontop_get_request sample_query)]\<rparr>,
        \<lparr>p_buf = None, p_count = 512, p_width = Some 8, p_height = Some 16\<rparr>)"
    using t1 by (simp add: boot_def sample_query_def store_def)
  moreover have "get_font_giofontx fontx_kernel boot sample_query =
       (0, \<lparr>env = (), errno = 0, calls = [GIO_FONTX (giofontx_request sample_query)]\<rparr>,
        \<lparr>p_buf = None, p_count = 128, p_width = Some 8, p_height = Some 14\<rparr>)"
    using t2 by (simp add: boot_def sample_query_def store_def)
  ultimately show ?thesis using n c k1 k2 t3 by simp
qed

lemma kfont_get_font_shape:
  assumes "kfont_get_font P s m = (r, s', m')"
  shows "(r = 0 \<or> r = - 1) \<and> (r \<noteq> 0 \<longrightarrow> m' = m)"
proof -
  obtain r1 s1 m1 where t1: "get_font_kdfontop P s m = (r1, s1, m1)"
    by (cases "get_font_kdfontop P s m") auto
  obtain r2 s2 m2 where t2: "get_font_giofontx P s1 m1 = (r2, s2, m2)"
    by (cases "get_font_giofontx P s1 m1") auto
  obtain r3 s3 m3 where t3: "get_font_giofont P s2 m2 = (r3, s3, m3)"
    by (cases "get_font_giofont P s2 m2") auto
  note sh = get_font_kdfontop_shape [OF t1] get_font_giofontx_shape [OF t2]
    get_font_giofont_shape [OF t3]
  show ?thesis
  proof (cases "r1 = 1")
    case False
    with kfont_get_font_tier1 [OF t1] assms sh(1) show ?thesis by auto
  next
    case r1: True
    show ?thesis
    proof (cases "r2 = 1")
      case False
      with kfont_get_font_tier2 [OF _ t2] t1 r1 assms sh(1,2) show ?thesis by auto
    next
      case True
      with kfont_get_font_tier3 [of P s m s1 m1 s2 m2] t1 t2 t3 r1 assms sh show ?thesis by auto
    qed
  qed
qed

text \<open>
  C9. When \<open>kfont_get_font\<close> returns -1, the cells behind \<open>count\<close>, \<open>width\<close> and \<open>height\<close>
  hold what they held before the call. Each of the three probes writes them only when it
  returns 0: whenever a probe returns anything else, the caller's side is unchanged.
\<close>

theorem failed_read_keeps_outputs:
  "(kfont_get_font P s m = (- 1, s', m') \<longrightarrow>
      p_count m' = p_count m \<and> p_width m' = p_width m \<and> p_height m' = p_height m)
   \<and> (get_font_kdfontop P s m = (r1, s1, m1) \<and> r1 \<noteq> 0 \<longrightarrow> m1 = m)
   \<and> (get_font_giofontx P s m = (r2, s2, m2) \<and> r2 \<noteq> 0 \<longrightarrow> m2 = m)
   \<and> (get_font_giofont P s m = (r3, s3, m3) \<and> r3 \<noteq> 0 \<longrightarrow> m3 = m)"
proof (intro conjI impI)
  assume "kfont_get_font P s m = (- 1, s', m')"
  from kfont_get_font_shape [OF this] have "m' = m" by simp
  then show "p_count m' = p_count m" "p_width m' = p_width m" "p_height m' = p_height m"
    by simp_all
next
  assume "get_font_kdfontop P s m = (r1, s1, m1) \<and> r1 \<noteq> 0"
  then show "m1 = m" using get_font_kdfontop_shape [of P s m r1 s1 m1] by simp
next
  assume "get_font_giofontx P s m = (r2, s2, m2) \<and> r2 \<noteq> 0"
  then show "m2 = m" using get_font_giofontx_shape [of P s m r2 s2 m2] by simp
next
  assume "get_font_giofont P s m = (r3, s3, m3) \<and> r3 \<noteq> 0"
  then show "m3 = m" using get_font_giofont_shape [of P s m r3 s3 m3] by simp
qed

lemma denied_tier1:
  "get_font_kdfontop denied_kernel boot sample_query =
     (1, \<lparr>env = (), errno = EINVAL, calls = [KDFONTOP (kdfontop_get_request sample_query)]\<rparr>,
      sample_query)"
  by (simp add: get_font_kdfontop_def ioctl_def denied_kernel_def stub_simps boot_def)

lemma denied_tier2:
  "get_font_giofontx denied_kernel
     \<lparr>env = (), errno = EINVAL, calls = [KDFONTOP (kdfontop_get_request sample_query)]\<rparr>
     sample_query =
     (- 1, \<lparr>env = (), errno = 1, calls = [KDFONTOP (kdfontop_get_request sample_query),
                                          GIO_FONTX (giofontx_request sample_query)]\<rparr>,
      sample_query)"
  by (simp add: get_font_giofontx_def ioctl_def denied_kernel_def stub_simps sample_query_def
        USHRT_MAX_def ENOSYS_def EINVAL_def)

lemma denied_get_font:
  "kfont_get_font denied_kernel boot sample_query =
     (- 1, \<lparr>env = (), errno = 1, calls = [KDFONTOP (kdfontop_get_request sample_query),
                                          GIO_FONTX (giofontx_request sample_query)]\<rparr>,
      sample_query)"
  by (simp add: kfont_get_font_def denied_tier1 denied_tier2)

theorem failed_read_keeps_outputs_witness:
  "kfont_get_font denied_kernel boot sample_query =
     (- 1, \<lparr>env = (), errno = 1, calls = [KDFONTOP (kdfontop_get_request sample_query),
                                          GIO_FONTX (giofontx_request sample_query)]\<rparr>,
      sample_query)
   \<and> p_count sample_query = 512 \<and> p_width sample_query = Some 0
   \<and> p_height sample_query = Some 0
   \<and> get_font_kdfontop denied_kernel boot sample_query =
     (1, \<lparr>env = (), errno = EINVAL, calls = [KDFONTOP (kdfontop_get_request sample_query)]\<rparr>,
      sample_query)
   \<and> (1 :: int) \<noteq> 0"
  using failed_read_keeps_outputs [of denied_kernel boot sample_query
      "\<lparr>env = (), errno = 1, calls = [KDFONTOP (kdfontop_get_request sample_query),
                                       GIO_FONTX (giofontx_request sample_query)]\<rparr>"
      sample_query 1
      "\<lparr>env = (), errno = EINVAL, calls = [KDFONTOP (kdfontop_get_request sample_query)]\<rparr>"
      sample_query]
    denied_get_font denied_tier1
  by (simp add: sample_query_def)

text \<open>
  C7. \<open>kfont_get_fontsize\<close> runs \<open>kfont_get_font\<close> on its query (count 0, no buffer, no
  width, no height). That call returns 0 or -1. When it returns 0, \<open>kfont_get_fontsize\<close>
  returns the count the call reported; when it returns -1, it returns 256. The result is
  always a count: the function has no error value.
\<close>

theorem kfont_get_fontsize_fallback:
  assumes "kfont_get_font P s fontsize_query = (r, s', m')"
  shows "kfont_get_fontsize P s = (if r = 0 then p_count m' else 256, s')
       \<and> (r = 0 \<or> r = - 1)"
  using assms kfont_get_font_shape [OF assms] by (auto simp: kfont_get_fontsize_def)

lemma modern_fontsize_query:
  "kfont_get_font modern_kernel boot fontsize_query =
     (0, \<lparr>env = (), errno = 0, calls = [KDFONTOP (kdfontop_get_request fontsize_query)]\<rparr>,
      \<lparr>p_buf = None, p_count = 512, p_width = None, p_height = None\<rparr>)"
  by (simp add: kfont_get_font_def get_font_kdfontop_def ioctl_def modern_kernel_def stub_simps
        boot_def fontsize_query_def written_def store_def)

lemma denied_fontsize_query:
  "kfont_get_font denied_kernel boot fontsize_query =
     (- 1, \<lparr>env = (), errno = 1, calls = [KDFONTOP (kdfontop_get_request fontsize_query),
                                          GIO_FONTX (giofontx_request fontsize_query)]\<rparr>,
      fontsize_query)"
  by (simp add: kfont_get_font_def get_font_kdfontop_def get_font_giofontx_def ioctl_def
        denied_kernel_def stub_simps boot_def fontsize_query_def USHRT_MAX_def ENOSYS_def
        EINVAL_def)

theorem kfont_get_fontsize_fallback_witness:
  "kfont_get_font modern_kernel boot fontsize_query =
     (0, \<lparr>env = (), errno = 0, calls = [KDFONTOP (kdfontop_get_request fontsize_query)]\<rparr>,
      \<lparr>p_buf = None, p_count = 512, p_width = None, p_height = None\<rparr>)
   \<and> fst (kfont_get_fontsize modern_kernel boot) = 512
   \<and> fst (kfont_get_font denied_kernel boot fontsize_query) = - 1
   \<and> fst (kfont_get_fontsize denied_kernel boot) = 256"
  using kfont_get_fontsize_fallback [OF modern_fontsize_query]
    kfont_get_fontsize_fallback [OF denied_fontsize_query]
    modern_fontsize_query denied_fontsize_query
  by simp

text \<open>
  C10. The query of \<open>kfont_get_fontsize\<close> asks for 0 glyphs with a null buffer, and the
  \<open>GIO_FONT\<close> probe rejects that query in every state without calling the device. So on
  a kernel that answers \<open>KDFONTOP\<close> and \<open>GIO_FONTX\<close> with \<open>ENOSYS\<close> or \<open>EINVAL\<close>,
  whatever its \<open>GIO_FONT\<close> would answer, \<open>kfont_get_fontsize\<close> returns 256 and the only
  requests made are \<open>KDFONTOP\<close> and \<open>GIO_FONTX\<close>.
\<close>

theorem kfont_get_fontsize_never_reaches_giofont:
  assumes "k_kdfontop P (env s) (kdfontop_get_request fontsize_query) = (Inl e1, d1)"
    and "e1 = ENOSYS \<or> e1 = EINVAL"
    and "k_gio_fontx P d1 (giofontx_request fontsize_query) = (Inl e2, d2)"
    and "e2 = ENOSYS \<or> e2 = EINVAL"
  shows "cfo_charcount (kdfontop_get_request fontsize_query) = 0
       \<and> cfo_data (kdfontop_get_request fontsize_query) = None
       \<and> cfd_charcount (giofontx_request fontsize_query) = 0
       \<and> cfd_chardata (giofontx_request fontsize_query) = None
       \<and> (\<forall>s0. get_font_giofont P s0 fontsize_query = (- 1, s0, fontsize_query))
       \<and> kfont_get_fontsize P s =
           (256, s\<lparr>env := d2, errno := e2,
                   calls := calls s @ [KDFONTOP (kdfontop_get_request fontsize_query),
                                       GIO_FONTX (giofontx_request fontsize_query)]\<rparr>)"
proof -
  let ?s1 = "s\<lparr>env := d1, errno := e1,
                calls := calls s @ [KDFONTOP (kdfontop_get_request fontsize_query)]\<rparr>"
  let ?s2 = "s\<lparr>env := d2, errno := e2,
                calls := calls s @ [KDFONTOP (kdfontop_get_request fontsize_query),
                                    GIO_FONTX (giofontx_request fontsize_query)]\<rparr>"
  have t1: "get_font_kdfontop P s fontsize_query = (1, ?s1, fontsize_query)"
    using get_font_kdfontop_fail [OF assms(1)] assms(2) by auto
  have small: "\<not> p_count fontsize_query > USHRT_MAX"
    by (simp add: fontsize_query_def)
  have "k_gio_fontx P (env ?s1) (giofontx_request fontsize_query) = (Inl e2, d2)"
    using assms(3) by simp
  from get_font_giofontx_fail [OF small this] assms(4)
  have t2: "get_font_giofontx P ?s1 fontsize_query = (1, ?s2, fontsize_query)" by auto
  have t3: "get_font_giofont P s0 fontsize_query = (- 1, s0, fontsize_query)" for s0
    by (rule get_font_giofont_reject) (simp add: fontsize_query_def)
  have "kfont_get_font P s fontsize_query = (- 1, ?s2, fontsize_query)"
    using kfont_get_font_tier3 [OF t1 t2] t3 by simp
  then have "kfont_get_fontsize P s = (256, ?s2)"
    by (simp add: kfont_get_fontsize_def)
  with t3 show ?thesis
    by (simp add: kdfontop_get_request_def giofontx_request_def fontsize_query_def)
qed

theorem kfont_get_fontsize_never_reaches_giofont_witness:
  "k_kdfontop legacy_kernel (env boot) (kdfontop_get_request fontsize_query) = (Inl ENOSYS, ())
   \<and> k_gio_fontx legacy_kernel () (giofontx_request fontsize_query) = (Inl EINVAL, ())
   \<and> k_gio_font legacy_kernel () (Some []) = (Inr (Some []), ())
   \<and> kfont_get_fontsize legacy_kernel boot =
       (256, \<lparr>env = (), errno = EINVAL,
              calls = [KDFONTOP (kdfontop_get_request fontsize_query),
                       GIO_FONTX (giofontx_request fontsize_query)]\<rparr>)"
proof -
  have k1: "k_kdfontop legacy_kernel (env boot) (kdfontop_get_request fontsize_query) =
      (Inl ENOSYS, ())"
    by (simp add: legacy_kernel_def stub_simps)
  have k2: "k_gio_fontx legacy_kernel () (giofontx_request fontsize_query) = (Inl EINVAL, ())"
    by (simp add: legacy_kernel_def stub_simps)
  have k3: "k_gio_font legacy_kernel () (Some []) = (Inr (Some []), ())"
    by (simp add: legacy_kernel_def stub_simps)
  from kfont_get_fontsize_never_reaches_giofont [OF k1 _ k2] k1 k2 k3
  show ?thesis by (simp add: boot_def)
qed

section \<open>Writing a font\<close>

lemma put_font_fallback_shape:
  assumes "put_font_fallback P s buf count height = (r, s')"
  shows "(r = 0 \<or> r = - 1)
       \<and> (calls s' = calls s @ [PIO_FONTX (piofontx_request buf count height)]
          \<or> calls s' = calls s @ [PIO_FONTX (piofontx_request buf count height),
                                   PIO_FONT (Some buf)])"
  using assms
  by (auto simp: put_font_fallback_def ioctl_def split: prod.splits sum.splits if_splits)

lemma put_font_fallback_fontx_ok:
  assumes "k_pio_fontx P (env s) (piofontx_request buf count height) = (Inr a, d)"
  shows "put_font_fallback P s buf count height =
           (0, s\<lparr>env := d, calls := calls s @ [PIO_FONTX (piofontx_request buf count height)]\<rparr>)"
  using assms by (simp add: put_font_fallback_def ioctl_def)

lemma unat_32_times:
  fixes count :: u32
  assumes "count < 512"
  shows "unat (32 * count) = 32 * unat count"
proof -
  have "unat count < 512" using assms by (simp add: word_less_nat_alt)
  then have "unat (32 :: u32) * unat count < 2 ^ LENGTH(32)" by simp
  then have "unat (32 * count) = unat (32 :: u32) * unat count"
    by (simp only: unat_mult_lem)
  then show ?thesis by simp
qed

lemma rounded_count:
  fixes count ct :: u32
  assumes "count \<noteq> 256" "count < 512" "ct = (if count \<le> 256 then 256 else 512)"
  shows "(if count > 256 then 512 else 256) = ct" "unat (32 * ct) = 32 * unat ct"
    "unat count \<le> unat ct"
proof -
  show "(if count > 256 then 512 else 256) = ct"
    using assms(1,3) by (auto simp: not_le)
  show "unat (32 * ct) = 32 * unat ct" using assms(3) by simp
  show "unat count \<le> unat ct"
    using assms(2,3) by (auto simp: word_le_nat_alt word_less_nat_alt)
qed

lemma put_font_variation_retry:
  assumes "errno s = EINVAL" "count \<noteq> 256" "count < 512" "32 * unat count \<le> length buf"
    and "ct = (if count \<le> 256 then 256 else 512)"
    and "malloc_ok P (env s) (32 * unat ct)"
    and "mybuf = take (32 * unat count) buf @ replicate (32 * unat ct - 32 * unat count) 0"
    and "k_kdfontop P (env s) (cfo\<lparr>cfo_data := Some mybuf, cfo_charcount := ct\<rparr>) = (res, d)"
    and "tr = [Malloc (32 * unat ct) True,
               KDFONTOP (cfo\<lparr>cfo_data := Some mybuf, cfo_charcount := ct\<rparr>), Free]"
  shows "put_font_variation P s cfo buf count 8 height =
     (case res of
        Inr a \<Rightarrow> Some (0, s\<lparr>env := d, calls := calls s @ tr\<rparr>)
      | Inl e \<Rightarrow> Some (put_font_fallback P (s\<lparr>env := d, errno := e, calls := calls s @ tr\<rparr>)
                          buf count height))"
proof -
  note rc = rounded_count [OF assms(2,3,5)]
  have n: "unat (32 * count) = 32 * unat count" using assms(3) by (rule unat_32_times)
  have le: "32 * unat count \<le> 32 * unat ct" using rc(3) by simp
  have cp: "memcpy (memset_zero (32 * unat ct)) buf (32 * unat count) = Some mybuf"
    using assms(4,7) le by (simp add: memcpy_def memset_zero_def)
  show ?thesis
    using assms(1,2,3,6,8,9) cp
    by (cases res)
      (simp_all add: put_font_variation_def rc(1,2) n Let_def ioctl_def log_event_def)
qed


lemma kfont_put_font_first_attempt:
  assumes "w = (if width = 0 then 8 else width)"
    and "(if height = 0 then font_charheight buf count w else Some height) = Some h"
    and "k_kdfontop P (env s) (kdfontop_set_request buf count w h) = (res, d)"
    and "req = kdfontop_set_request buf count w h"
  shows "kfont_put_font P s buf count width height =
     (case res of
        Inr a \<Rightarrow> Some (0, s\<lparr>env := d, calls := calls s @ [KDFONTOP req]\<rparr>)
      | Inl e \<Rightarrow>
          if w \<noteq> 8 \<or> (e \<noteq> ENOSYS \<and> e \<noteq> EINVAL)
          then Some (- 1, s\<lparr>env := d, errno := e, calls := calls s @ [KDFONTOP req]\<rparr>)
          else put_font_variation P (s\<lparr>env := d, errno := e, calls := calls s @ [KDFONTOP req]\<rparr>)
                 req buf count w h)"
proof -
  let ?w = "if width = 0 then 8 else width"
  have hh: "(if height = 0 then font_charheight buf count ?w else Some height) = Some h"
    using assms(2) by (simp only: assms(1))
  have k: "k_kdfontop P (env s) (kdfontop_set_request buf count ?w h) = (res, d)"
    using assms(3) by (simp only: assms(1))
  have r: "req = kdfontop_set_request buf count ?w h"
    using assms(4) by (simp only: assms(1))
  have unf: "kfont_put_font P s buf count width height =
      (case ioctl (k_kdfontop P) KDFONTOP s (kdfontop_set_request buf count ?w h) of
         (i, cfo, s1) \<Rightarrow>
           if i = 0 then Some (0, s1)
           else if ?w \<noteq> 8 \<or> (errno s1 \<noteq> ENOSYS \<and> errno s1 \<noteq> EINVAL) then Some (- 1, s1)
           else put_font_variation P s1 cfo buf count ?w h)"
    by (simp only: kfont_put_font_def Let_def hh option.case)
  show ?thesis
  proof (cases res)
    case (Inr a)
    with k have "k_kdfontop P (env s) (kdfontop_set_request buf count ?w h) = (Inr a, d)"
      by simp
    from ioctl_ok [where entry = "k_kdfontop P" and s = s and request = KDFONTOP, OF this]
    show ?thesis
      by (simp add: unf Inr r)
  next
    case (Inl e)
    with k have "k_kdfontop P (env s) (kdfontop_set_request buf count ?w h) = (Inl e, d)"
      by simp
    from ioctl_fail [where entry = "k_kdfontop P" and s = s and request = KDFONTOP, OF this]
    show ?thesis
      by (simp add: unf Inl r assms(1))
  qed
qed

text \<open>
  C8. When the width of a write, after 0 has been replaced by 8, is not 8 and the
  \<open>KDFONTOP\<close> request fails, with any failure code, \<open>kfont_put_font\<close> returns -1 and
  that request is the only thing it asked of its environment: no allocation, no second
  \<open>KDFONTOP\<close>, no \<open>PIO_FONTX\<close> and no \<open>PIO_FONT\<close>.
\<close>

theorem put_font_wide_glyph_failure_is_final:
  assumes "width \<noteq> 0" "width \<noteq> 8"
    and "(if height = 0 then font_charheight buf count width else Some height) = Some h"
    and "k_kdfontop P (env s) (kdfontop_set_request buf count width h) = (Inl e, d)"
  shows "kfont_put_font P s buf count width height =
           Some (- 1, s\<lparr>env := d, errno := e,
                       calls := calls s @ [KDFONTOP (kdfontop_set_request buf count width h)]\<rparr>)"
proof -
  have w: "width = (if width = 0 then 8 else width)" using assms(1) by simp
  from kfont_put_font_first_attempt [OF w assms(3,4) refl] assms(2) show ?thesis by simp
qed

theorem put_font_wide_glyph_failure_is_final_witness:
  "(16 :: u32) \<noteq> 0 \<and> (16 :: u32) \<noteq> 8
   \<and> k_kdfontop denied_kernel (env boot) (kdfontop_set_request two_wide_glyphs 2 16 16) =
       (Inl EINVAL, ())
   \<and> kfont_put_font denied_kernel boot two_wide_glyphs 2 16 16 =
       Some (- 1, \<lparr>env = (), errno = EINVAL,
                   calls = [KDFONTOP (kdfontop_set_request two_wide_glyphs 2 16 16)]\<rparr>)"
proof -
  have k: "k_kdfontop denied_kernel (env boot) (kdfontop_set_request two_wide_glyphs 2 16 16) =
       (Inl EINVAL, ())"
    by (simp add: denied_kernel_def stub_simps)
  have h: "(if (16 :: u32) = 0 then font_charheight two_wide_glyphs 2 16 else Some 16) = Some 16"
    by simp
  from put_font_wide_glyph_failure_is_final [OF _ _ h k] k show ?thesis
    by (simp add: boot_def)
qed

text \<open>
  C1, as amended. Take a write of width 8 (given as 8 or as 0) with \<open>count \<noteq> 256\<close> and
  \<open>count < 512\<close>, from a buffer of at least \<open>32 * count\<close> bytes, whose \<open>KDFONTOP\<close>
  request fails with \<open>EINVAL\<close>, and let the allocation of the scratch buffer succeed.
  Then \<open>kfont_put_font\<close> issues \<open>KDFONTOP\<close> exactly once more, with the count \<open>ct\<close>
  rounded up to 256 (\<open>count \<le> 256\<close>) or 512 and a scratch buffer of \<open>32 * ct\<close> bytes
  made of the first \<open>32 * count\<close> bytes of the caller's buffer followed by zeros; width
  and height are those of the first request. The scratch buffer is freed right after
  that request. When the request succeeds the call returns 0 and nothing else happens;
  when it fails the call goes on with \<open>PIO_FONTX\<close> and, at most, \<open>PIO_FONT\<close>.
\<close>

theorem put_font_count_rounding_retry:
  assumes "width = 0 \<or> width = 8"
    and "count \<noteq> 256" "count < 512"
    and "32 * unat count \<le> length buf"
    and "(if height = 0 then font_charheight buf count 8 else Some height) = Some h"
    and "k_kdfontop P (env s) (kdfontop_set_request buf count 8 h) = (Inl EINVAL, d1)"
    and "ct = (if count \<le> 256 then 256 else 512)"
    and "malloc_ok P d1 (32 * unat ct)"
    and "mybuf = take (32 * unat count) buf @ replicate (32 * unat ct - 32 * unat count) 0"
    and "k_kdfontop P d1 (kdfontop_set_request mybuf ct 8 h) = (res, d2)"
    and "tr = [KDFONTOP (kdfontop_set_request buf count 8 h), Malloc (32 * unat ct) True,
               KDFONTOP (kdfontop_set_request mybuf ct 8 h), Free]"
  shows "length mybuf = 32 * unat ct
       \<and> (\<forall>a. res = Inr a \<longrightarrow>
            kfont_put_font P s buf count width height =
              Some (0, s\<lparr>env := d2, errno := EINVAL, calls := calls s @ tr\<rparr>))
       \<and> (\<forall>e. res = Inl e \<longrightarrow>
            (\<exists>r s'. kfont_put_font P s buf count width height = Some (r, s')
               \<and> (calls s' = calls s @ tr @ [PIO_FONTX (piofontx_request buf count h)]
                  \<or> calls s' = calls s @ tr @ [PIO_FONTX (piofontx_request buf count h),
                                                PIO_FONT (Some buf)])))"
proof -
  let ?req = "kdfontop_set_request buf count 8 h"
  let ?s1 = "s\<lparr>env := d1, errno := EINVAL, calls := calls s @ [KDFONTOP ?req]\<rparr>"
  have w8: "8 = (if width = 0 then 8 else width)" using assms(1) by auto
  have first: "kfont_put_font P s buf count width height =
      put_font_variation P ?s1 ?req buf count 8 h"
    using kfont_put_font_first_attempt [OF w8 assms(5,6) refl] by simp
  have req2: "?req\<lparr>cfo_data := Some mybuf, cfo_charcount := ct\<rparr> = kdfontop_set_request mybuf ct 8 h"
    by (simp add: kdfontop_set_request_def)
  have var: "put_font_variation P ?s1 ?req buf count 8 h =
     (case res of
        Inr a \<Rightarrow> Some (0, ?s1\<lparr>env := d2, calls := calls ?s1 @ tl tr\<rparr>)
      | Inl e \<Rightarrow> Some (put_font_fallback P (?s1\<lparr>env := d2, errno := e, calls := calls ?s1 @ tl tr\<rparr>)
                          buf count h))"
    by (rule put_font_variation_retry [OF _ assms(2,3,4,7) _ assms(9)])
       (simp_all add: assms(8,10,11) req2)
  have len: "length mybuf = 32 * unat ct"
    using assms(4,9) rounded_count(3) [OF assms(2,3,7)] by simp
  have ok: "kfont_put_font P s buf count width height =
      Some (0, s\<lparr>env := d2, errno := EINVAL, calls := calls s @ tr\<rparr>)" if "res = Inr a" for a
    using first var that by (simp add: assms(11))
  have bad: "\<exists>r s'. kfont_put_font P s buf count width height = Some (r, s')
       \<and> (calls s' = calls s @ tr @ [PIO_FONTX (piofontx_request buf count h)]
          \<or> calls s' = calls s @ tr @ [PIO_FONTX (piofontx_request buf count h),
                                        PIO_FONT (Some buf)])" if "res = Inl e" for e
  proof -
    let ?s3 = "?s1\<lparr>env := d2, errno := e, calls := calls ?s1 @ tl tr\<rparr>"
    obtain r s' where fb: "put_font_fallback P ?s3 buf count h = (r, s')"
      by (cases "put_font_fallback P ?s3 buf count h") auto
    have "kfont_put_font P s buf count width height = Some (r, s')"
      using first var that fb by simp
    moreover have "calls ?s3 = calls s @ tr" by (simp add: assms(11))
    ultimately show ?thesis using put_font_fallback_shape [OF fb] by auto
  qed
  from len ok bad show ?thesis by blast
qed


lemma font100_height: "font_charheight font100 100 8 = Some 0"
proof -
  have len: "length font100 = 3200" by (simp add: font100_def)
  have a: "unat (8 :: u32) + 7 < 2 ^ 32" by simp
  have b: "32 * unat (100 :: u32) * ((unat (8 :: u32) + 7) div 8) \<le> 2 ^ 32" by simp
  have c: "32 * unat (100 :: u32) * ((unat (8 :: u32) + 7) div 8) \<le> length font100"
    by (simp add: len)
  have "\<forall>k < 32 * unat (100 :: u32) * ((unat (8 :: u32) + 7) div 8). font100 ! k = 0"
    by (simp add: font100_def)
  from spec_height_blank [OF this] font_charheight_refines [OF a b c] show ?thesis by simp
qed

theorem put_font_count_rounding_retry_witness:
  "((8 :: u32) = 0 \<or> (8 :: u32) = 8) \<and> (100 :: u32) \<noteq> 256 \<and> (100 :: u32) < 512
   \<and> 32 * unat (100 :: u32) \<le> length font100
   \<and> font_charheight font100 100 8 = Some 0
   \<and> k_kdfontop vga_kernel (env boot) (kdfontop_set_request font100 100 8 0) = (Inl EINVAL, ())
   \<and> malloc_ok vga_kernel () 8192
   \<and> kfont_put_font vga_kernel boot font100 100 8 0 =
       Some (0, \<lparr>env = (), errno = EINVAL,
                 calls = [KDFONTOP (kdfontop_set_request font100 100 8 0),
                          Malloc 8192 True,
                          KDFONTOP (kdfontop_set_request
                                      (take 3200 font100 @ replicate 4992 0) 256 8 0),
                          Free]\<rparr>)"
proof -
  let ?mybuf = "take (32 * unat (100 :: u32)) font100 @
                replicate (32 * unat (256 :: u32) - 32 * unat (100 :: u32)) 0"
  have w: "(8 :: u32) = 0 \<or> (8 :: u32) = 8" by simp
  have c1: "(100 :: u32) \<noteq> 256" by simp
  have c2: "(100 :: u32) < 512" by simp
  have len: "32 * unat (100 :: u32) \<le> length font100" by (simp add: font100_def)
  have h: "(if (0 :: u32) = 0 then font_charheight font100 100 8 else Some 0) = Some 0"
    by (simp add: font100_height)
  have k1: "k_kdfontop vga_kernel (env boot) (kdfontop_set_request font100 100 8 0) =
      (Inl EINVAL, ())"
    by (simp add: vga_kernel_def stub_simps kdfontop_set_request_def)
  have ct: "(256 :: u32) = (if (100 :: u32) \<le> 256 then 256 else 512)" by simp
  have ma: "malloc_ok vga_kernel () (32 * unat (256 :: u32))"
    by (simp add: vga_kernel_def stub_simps)
  have k2: "k_kdfontop vga_kernel () (kdfontop_set_request ?mybuf 256 8 0) =
      (Inr (kdfontop_set_request ?mybuf 256 8 0), ())"
    by (simp add: vga_kernel_def stub_simps kdfontop_set_request_def)
  from put_font_count_rounding_retry [OF w c1 c2 len h k1 ct ma refl k2 refl]
  have "kfont_put_font vga_kernel boot font100 100 8 0 =
      Some (0, boot\<lparr>env := (), errno := EINVAL,
                    calls := calls boot @
                      [KDFONTOP (kdfontop_set_request font100 100 8 0),
                       Malloc (32 * unat (256 :: u32)) True,
                       KDFONTOP (kdfontop_set_request ?mybuf 256 8 0), Free]\<rparr>)"
    by blast
  then show ?thesis using w c1 c2 len font100_height k1 ma by (simp add: boot_def)
qed

text \<open>
  C1 fails when "not supported" is \<open>ENOSYS\<close>: for 100 glyphs of width 8 on a kernel
  without \<open>KDFONTOP\<close>, the call goes from the first request straight to \<open>PIO_FONTX\<close>;
  there is no allocation and no second \<open>KDFONTOP\<close>.
\<close>

theorem put_font_enosys_skips_retry_counterexample:
  "k_kdfontop fontx_kernel (env boot) (kdfontop_set_request font100 100 8 0) = (Inl ENOSYS, ())
   \<and> (100 :: u32) \<noteq> 256 \<and> (100 :: u32) < 512
   \<and> 32 * unat (100 :: u32) \<le> length font100
   \<and> kfont_put_font fontx_kernel boot font100 100 8 0 =
       Some (0, \<lparr>env = (), errno = ENOSYS,
                 calls = [KDFONTOP (kdfontop_set_request font100 100 8 0),
                          PIO_FONTX (piofontx_request font100 100 0)]\<rparr>)"
proof -
  have k1: "k_kdfontop fontx_kernel (env boot) (kdfontop_set_request font100 100 8 0) =
      (Inl ENOSYS, ())"
    by (simp add: fontx_kernel_def stub_simps)
  have len: "32 * unat (100 :: u32) \<le> length font100" by (simp add: font100_def)
  have "kfont_put_font fontx_kernel boot font100 100 8 0 =
       Some (0, \<lparr>env = (), errno = ENOSYS,
                 calls = [KDFONTOP (kdfontop_set_request font100 100 8 0),
                          PIO_FONTX (piofontx_request font100 100 0)]\<rparr>)"
    by (simp add: kfont_put_font_def font100_height ioctl_def fontx_kernel_def stub_simps
          boot_def put_font_variation_def put_font_fallback_def ENOSYS_def EINVAL_def)
  with k1 len show ?thesis by simp
qed

text \<open>
  C6 holds when reading and fails when writing. For a count of 65792, above
  \<open>USHRT_MAX\<close>, \<open>get_font_giofontx\<close> returns -1 without calling the device. On a kernel
  whose \<open>KDFONTOP\<close> rejects that count as invalid, \<open>kfont_put_font\<close> with the same count
  issues \<open>PIO_FONTX\<close> with the count cut down to 16 bits, 256, and returns 0.
\<close>

theorem put_font_fontx_truncates_count:
  "USHRT_MAX < (65792 :: u32)
   \<and> get_font_giofontx vga_kernel boot
        \<lparr>p_buf = Some big_font, p_count = 65792, p_width = Some 0, p_height = Some 0\<rparr> =
       (- 1, boot, \<lparr>p_buf = Some big_font, p_count = 65792, p_width = Some 0, p_height = Some 0\<rparr>)
   \<and> kfont_put_font vga_kernel boot big_font 65792 8 16 =
       Some (0, \<lparr>env = (), errno = EINVAL,
                 calls = [KDFONTOP (kdfontop_set_request big_font 65792 8 16),
                          PIO_FONTX \<lparr>cfd_charcount = 256, cfd_charheight = 16,
                                     cfd_chardata = Some big_font\<rparr>]\<rparr>)"
proof -
  have big: "USHRT_MAX < (65792 :: u32)" by (simp add: USHRT_MAX_def)
  have rd: "get_font_giofontx vga_kernel boot
        \<lparr>p_buf = Some big_font, p_count = 65792, p_width = Some 0, p_height = Some 0\<rparr> =
       (- 1, boot, \<lparr>p_buf = Some big_font, p_count = 65792, p_width = Some 0, p_height = Some 0\<rparr>)"
    by (rule get_font_giofontx_big) (simp add: USHRT_MAX_def)
  have wr: "kfont_put_font vga_kernel boot big_font 65792 8 16 =
       Some (0, \<lparr>env = (), errno = EINVAL,
                 calls = [KDFONTOP (kdfontop_set_request big_font 65792 8 16),
                          PIO_FONTX \<lparr>cfd_charcount = 256, cfd_charheight = 16,
                                     cfd_chardata = Some big_font\<rparr>]\<rparr>)"
    by (simp add: kfont_put_font_def ioctl_def vga_kernel_def stub_simps
          boot_def put_font_variation_def put_font_fallback_def piofontx_request_def
          kdfontop_set_request_def ENOSYS_def EINVAL_def)
  from big rd wr show ?thesis by simp
qed

theorem put_font_fontx_truncates_count_witness:
  "map_option fst (kfont_put_font vga_kernel boot big_font 65792 8 16) = Some 0
   \<and> map_option (\<lambda>(r, s'). last (calls s')) (kfont_put_font vga_kernel boot big_font 65792 8 16) =
       Some (PIO_FONTX \<lparr>cfd_charcount = 256, cfd_charheight = 16, cfd_chardata = Some big_font\<rparr>)"
  using put_font_fontx_truncates_count by simp

end
